theory Spec2Isabelle
  imports Complex_Main "HOL-Library.Log_Nat"
begin

chapter \<open>USB-drop campaign front end: a shallow embedding\<close>

text \<open>
  The sources are the Vue single-file components under
  \<^verbatim>\<open>campaign-frontend/src/views\<close>, the router, the axios client
  (\<^verbatim>\<open>services/api.js\<close>) and the auth store. Every function below is
  the translation of one source function or one template fragment; JavaScript values,
  truthiness and the effects of a handler (requests, alerts, storage writes) are explicit.
  The backend is not among the sources; its trigger ingestion is modelled from the
  specification in the last section of the definitions.
\<close>

section \<open>JavaScript values\<close>

text \<open>
  A JavaScript number is a NaN, an infinity (\<open>Infinity True\<close> is the negative one) or a
  finite value. Finite values are kept as rationals; arithmetic (further down) rounds its
  results to binary64.
\<close>

datatype number = NaN | Infinity bool | Finite rat

datatype jsval = JUndefined | JNull | JBool bool | JNum number | JStr string

text \<open>ToBoolean: what \<^verbatim>\<open>if (x)\<close>, \<^verbatim>\<open>!x\<close>, \<^verbatim>\<open>x || y\<close>,
  \<^verbatim>\<open>x && y\<close>, \<^verbatim>\<open>x ? a : b\<close> and \<^verbatim>\<open>v-if="x"\<close> test.\<close>

fun truthy :: "jsval \<Rightarrow> bool" where
  "truthy JUndefined = False"
| "truthy JNull = False"
| "truthy (JBool b) = b"
| "truthy (JNum NaN) = False"
| "truthy (JNum (Infinity _)) = True"
| "truthy (JNum (Finite q)) = (q \<noteq> 0)"
| "truthy (JStr s) = (s \<noteq> [])"

text \<open>\<^verbatim>\<open>a || b\<close> and \<^verbatim>\<open>a && b\<close> return one of their operands.\<close>

definition js_or :: "jsval \<Rightarrow> jsval \<Rightarrow> jsval" where
  "js_or a b = (if truthy a then a else b)"

definition js_and :: "jsval \<Rightarrow> jsval \<Rightarrow> jsval" where
  "js_and a b = (if truthy a then b else a)"

text \<open>The values a JSON field or a form field is tested against \<^verbatim>\<open>null\<close>.\<close>

definition non_null :: "jsval \<Rightarrow> bool" where
  "non_null v = (v \<noteq> JNull \<and> v \<noteq> JUndefined)"

section \<open>The router and its navigation guard\<close>

text \<open>
  \<^verbatim>\<open>stores/auth.js\<close>: \<open>accessToken\<close> starts as
  \<^verbatim>\<open>localStorage.getItem('accessToken')\<close> (a string or null) and
  \<open>isAuthenticated\<close> is \<^verbatim>\<open>!!accessToken.value\<close>.
\<close>

record auth_store =
  accessToken :: jsval
  refreshToken :: jsval

definition isAuthenticated :: "auth_store \<Rightarrow> bool" where
  "isAuthenticated store = truthy (accessToken store)"

text \<open>The target of a navigation: its path and \<^verbatim>\<open>to.meta.public\<close>
  (\<open>JUndefined\<close> when the route record has no such key).\<close>

record route =
  path :: string
  meta_public :: jsval

text \<open>\<^verbatim>\<open>next()\<close> lets the navigation proceed, \<^verbatim>\<open>next(p)\<close> redirects it.\<close>

datatype navigation = Proceed | Redirect string

definition beforeEach :: "route \<Rightarrow> auth_store \<Rightarrow> navigation" where
  "beforeEach to store =
     (if \<not> truthy (meta_public to) \<and> \<not> isAuthenticated store then Redirect ''/login''
      else if path to = ''/login'' \<and> isAuthenticated store then Redirect ''/''
      else Proceed)"

text \<open>
  The route table of \<^verbatim>\<open>router/index.js\<close>: each path pattern with the
  \<^verbatim>\<open>meta.public\<close> of its record. Only \<^verbatim>\<open>/login\<close> carries
  \<^verbatim>\<open>meta: { public: true }\<close>.
\<close>

definition routes :: "(string \<times> jsval) list" where
  "routes =
     [(''/login'', JBool True), (''/'', JUndefined), (''/campaigns'', JUndefined),
      (''/campaigns/:id'', JUndefined), (''/profiles'', JUndefined), (''/drives'', JUndefined),
      (''/drives/:id'', JUndefined), (''/map'', JUndefined), (''/alerts'', JUndefined),
      (''/reports'', JUndefined)]"

text \<open>
  A redirect starts a new navigation, which runs the guard again. \<open>navigate\<close> follows
  the redirects; \<open>meta\<close> is the router's matcher (the \<^verbatim>\<open>meta.public\<close> of the
  record a path resolves to), the fuel bounds the number of guard runs, and \<open>None\<close> is a
  navigation that has not settled within it.
\<close>

fun navigate :: "nat \<Rightarrow> (string \<Rightarrow> jsval) \<Rightarrow> auth_store \<Rightarrow> string \<Rightarrow> string option" where
  "navigate 0 meta store p = None"
| "navigate (Suc n) meta store p =
     (case beforeEach \<lparr>path = p, meta_public = meta p\<rparr> store of
        Proceed \<Rightarrow> Some p
      | Redirect q \<Rightarrow> navigate n meta store q)"

text \<open>The matcher restricted to the paths the table lists literally.\<close>

definition table_meta :: "string \<Rightarrow> jsval" where
  "table_meta p = (case map_of routes p of Some m \<Rightarrow> m | None \<Rightarrow> JUndefined)"

section \<open>The API client\<close>

text \<open>
  \<^verbatim>\<open>services/api.js\<close>: every helper builds one axios request. A request is
  its method (the field \<open>verb\<close>), its URL under the base URL, its query parameters and its JSON body
  (\<open>None\<close> when the call passes no data). A JSON object is the list of its keys and
  values, in the order the object literal gives them.
\<close>

datatype http_method = GET | POST | PUT | DELETE

type_synonym json_object = "(string \<times> jsval) list"

record request =
  verb :: http_method
  url :: string
  params :: json_object
  data :: "json_object option"

definition api_get :: "string \<Rightarrow> json_object \<Rightarrow> request" where
  "api_get u ps = \<lparr>verb = GET, url = u, params = ps, data = None\<rparr>"

definition api_post :: "string \<Rightarrow> json_object option \<Rightarrow> request" where
  "api_post u d = \<lparr>verb = POST, url = u, params = [], data = d\<rparr>"

definition api_put :: "string \<Rightarrow> json_object option \<Rightarrow> request" where
  "api_put u d = \<lparr>verb = PUT, url = u, params = [], data = d\<rparr>"

definition api_delete :: "string \<Rightarrow> request" where
  "api_delete u = \<lparr>verb = DELETE, url = u, params = [], data = None\<rparr>"

subsection \<open>campaignsApi\<close>

definition campaigns_list :: request where
  "campaigns_list = api_get ''/campaigns'' []"

definition campaigns_get :: "string \<Rightarrow> request" where
  "campaigns_get cid = api_get (''/campaigns/'' @ cid) []"

definition campaigns_create :: "json_object \<Rightarrow> request" where
  "campaigns_create d = api_post ''/campaigns'' (Some d)"

definition campaigns_update :: "string \<Rightarrow> json_object \<Rightarrow> request" where
  "campaigns_update cid d = api_put (''/campaigns/'' @ cid) (Some d)"

definition campaigns_delete :: "string \<Rightarrow> request" where
  "campaigns_delete cid = api_delete (''/campaigns/'' @ cid)"

definition campaigns_stats :: "string \<Rightarrow> request" where
  "campaigns_stats cid = api_get (''/campaigns/'' @ cid @ ''/stats'') []"

subsection \<open>drivesApi\<close>

definition drives_get :: "string \<Rightarrow> request" where
  "drives_get did = api_get (''/drives/'' @ did) []"

definition drives_prepare :: "string \<Rightarrow> request" where
  "drives_prepare did = api_post (''/drives/'' @ did @ ''/prepare'') None"

definition drives_deploy :: "string \<Rightarrow> json_object \<Rightarrow> request" where
  "drives_deploy did d = api_post (''/drives/'' @ did @ ''/deploy'') (Some d)"

definition drives_download :: "string \<Rightarrow> request" where
  "drives_download did = api_get (''/drives/'' @ did @ ''/download'') []"

definition drives_tokens :: "string \<Rightarrow> request" where
  "drives_tokens did = api_get (''/drives/'' @ did @ ''/tokens'') []"

subsection \<open>alertsApi\<close>

text \<open>
  \<^verbatim>\<open>recent: (hours = 24) => api.get('/alerts/recent', { params: { hours } })\<close>:
  the default applies when the argument is missing or \<^verbatim>\<open>undefined\<close>.
\<close>

definition alerts_recent :: "jsval \<Rightarrow> request" where
  "alerts_recent h =
     (let hours = (if h = JUndefined then JNum (Finite 24) else h)
      in api_get ''/alerts/recent'' [(''hours'', hours)])"

definition alerts_stats :: "jsval \<Rightarrow> request" where
  "alerts_stats campaignId = api_get ''/alerts/stats'' [(''campaign_id'', campaignId)]"

definition alerts_map :: "json_object \<Rightarrow> request" where
  "alerts_map ps = api_get ''/alerts/map'' ps"

section \<open>The alerts view: filters\<close>

text \<open>
  \<^verbatim>\<open>views/Alerts.vue\<close>. The time range is a \<^verbatim>\<open>select\<close> bound to
  \<^verbatim>\<open>filters.hours\<close> whose options are \<open>hourOptions\<close>; choosing an option
  stores its \<^verbatim>\<open>value\<close>. The campaign select stores the chosen campaign id
  (or the empty string for all campaigns).
\<close>

record alert_filters =
  campaign_id :: jsval
  hours :: jsval

definition hourOptions :: "(jsval \<times> string) list" where
  "hourOptions =
     [(JNum (Finite 1), ''Last hour''), (JNum (Finite 6), ''Last 6 hours''),
      (JNum (Finite 24), ''Last 24 hours''), (JNum (Finite 72), ''Last 3 days''),
      (JNum (Finite 168), ''Last 7 days''), (JNum (Finite 720), ''Last 30 days'')]"

definition initial_filters :: alert_filters where
  "initial_filters = \<lparr>campaign_id = JStr '''', hours = JNum (Finite 24)\<rparr>"

text \<open>What the operator can do to the filters: pick the \<open>i\<close>-th time range that is
  rendered, or pick a campaign.\<close>

datatype filter_event = SelectHours nat | SelectCampaign jsval

fun apply_filter_event :: "alert_filters \<Rightarrow> filter_event \<Rightarrow> alert_filters" where
  "apply_filter_event f (SelectHours i) =
     (if i < length hourOptions then f\<lparr>hours := fst (hourOptions ! i)\<rparr> else f)"
| "apply_filter_event f (SelectCampaign c) = f\<lparr>campaign_id := c\<rparr>"

text \<open>\<^verbatim>\<open>loadAlerts\<close> issues
  \<^verbatim>\<open>alertsApi.recent(filters.value.hours)\<close> and
  \<^verbatim>\<open>alertsApi.stats(filters.value.campaign_id || undefined)\<close>.\<close>

definition loadAlerts :: "alert_filters \<Rightarrow> request list" where
  "loadAlerts f =
     [alerts_recent (hours f), alerts_stats (js_or (campaign_id f) JUndefined)]"

text \<open>The dashboard's \<^verbatim>\<open>onMounted\<close> asks for \<^verbatim>\<open>alertsApi.recent(24)\<close>.\<close>

definition dashboard_recent :: request where
  "dashboard_recent = alerts_recent (JNum (Finite 24))"

text \<open>\<^verbatim>\<open>loadMapData\<close> of \<^verbatim>\<open>views/MapView.vue\<close>: the campaign filter
  becomes a query parameter only when it is set.\<close>

definition loadMapData_request :: "jsval \<Rightarrow> request" where
  "loadMapData_request cid =
     alerts_map (if truthy cid then [(''campaign_id'', cid)] else [])"

text \<open>A value that is an integral number.\<close>

fun is_integer :: "jsval \<Rightarrow> bool" where
  "is_integer (JNum (Finite q)) = (q = of_int \<lfloor>q\<rfloor>)"
| "is_integer _ = False"

section \<open>Campaigns: create, edit, delete\<close>

text \<open>
  \<^verbatim>\<open>views/CampaignDetail.vue\<close>. \<open>campaign\<close> is the object the server returned
  (\<open>c_id\<close> is its \<^verbatim>\<open>id\<close>); \<^verbatim>\<open>loadCampaign\<close> copies four of its
  fields into \<open>editForm\<close>, the edit modal binds one control to each of them, and
  \<^verbatim>\<open>updateCampaign\<close> sends the form as it stands.
\<close>

record campaign =
  c_id :: string
  c_name :: jsval
  c_client_name :: jsval
  c_description :: jsval
  c_status :: jsval

record edit_form =
  name :: jsval
  client_name :: jsval
  description :: jsval
  status :: jsval

definition load_editForm :: "campaign \<Rightarrow> edit_form" where
  "load_editForm c =
     \<lparr>name = c_name c, client_name = c_client_name c,
      description = c_description c, status = c_status c\<rparr>"

text \<open>The \<^verbatim>\<open>option\<close> elements of the status \<^verbatim>\<open>select\<close>: value and label.\<close>

definition status_options :: "(string \<times> string) list" where
  "status_options =
     [(''draft'', ''Draft''), (''active'', ''Active''),
      (''completed'', ''Completed''), (''archived'', ''Archived'')]"

datatype edit_event =
    EditName string
  | EditClientName string
  | SelectStatus nat
  | EditDescription string

fun apply_edit_event :: "edit_form \<Rightarrow> edit_event \<Rightarrow> edit_form" where
  "apply_edit_event f (EditName s) = f\<lparr>name := JStr s\<rparr>"
| "apply_edit_event f (EditClientName s) = f\<lparr>client_name := JStr s\<rparr>"
| "apply_edit_event f (SelectStatus i) =
     (if i < length status_options then f\<lparr>status := JStr (fst (status_options ! i))\<rparr> else f)"
| "apply_edit_event f (EditDescription s) = f\<lparr>description := JStr s\<rparr>"

definition editForm_json :: "edit_form \<Rightarrow> json_object" where
  "editForm_json f =
     [(''name'', name f), (''client_name'', client_name f),
      (''description'', description f), (''status'', status f)]"

definition updateCampaign :: "campaign \<Rightarrow> edit_form \<Rightarrow> request" where
  "updateCampaign c f = campaigns_update (c_id c) (editForm_json f)"

text \<open>\<^verbatim>\<open>deleteCampaign\<close> asks for confirmation first.\<close>

definition deleteCampaign :: "bool \<Rightarrow> campaign \<Rightarrow> request list" where
  "deleteCampaign confirmed c = (if confirmed then [campaigns_delete (c_id c)] else [])"

text \<open>\<^verbatim>\<open>views/Campaigns.vue\<close>: \<^verbatim>\<open>createCampaign\<close> posts
  \<^verbatim>\<open>newCampaign\<close>, an object of three text fields.\<close>

record new_campaign =
  nc_name :: string
  nc_client_name :: string
  nc_description :: string

definition createCampaign :: "new_campaign \<Rightarrow> request" where
  "createCampaign nc =
     campaigns_create
       [(''name'', JStr (nc_name nc)), (''client_name'', JStr (nc_client_name nc)),
        (''description'', JStr (nc_description nc))]"

text \<open>The requests of the views that change a campaign on the server: creating one,
  saving the edit form, deleting after confirmation.\<close>

definition campaign_writes :: "new_campaign \<Rightarrow> campaign \<Rightarrow> edit_form \<Rightarrow> bool \<Rightarrow> request list" where
  "campaign_writes nc c f confirmed =
     createCampaign nc # updateCampaign c f # deleteCampaign confirmed c"

text \<open>A request's body mentions a key.\<close>

definition body_has :: "string \<Rightarrow> request \<Rightarrow> bool" where
  "body_has k r = (case data r of None \<Rightarrow> False | Some d \<Rightarrow> k \<in> fst ` set d)"

section \<open>The drive detail view\<close>

text \<open>
  \<^verbatim>\<open>views/DriveDetail.vue\<close>. A drive as the server returns it: \<open>d_id\<close> is its
  \<^verbatim>\<open>id\<close>, \<open>d_status\<close> its \<^verbatim>\<open>status\<close> string. \<open>deployment\<close> is the
  object behind the deploy form, created with the four keys below and never given
  another one.
\<close>

record drive =
  d_id :: string
  d_status :: string
  unique_code :: string

record deployment =
  latitude :: jsval
  longitude :: jsval
  location_description :: string
  deployed_by :: string

definition initial_deployment :: deployment where
  "initial_deployment =
     \<lparr>latitude = JNull, longitude = JNull, location_description = '''', deployed_by = ''''\<rparr>"

text \<open>The object \<^verbatim>\<open>deployment.value\<close> as the request body axios serialises.\<close>

definition deployment_json :: "deployment \<Rightarrow> json_object" where
  "deployment_json dep =
     [(''latitude'', latitude dep), (''longitude'', longitude dep),
      (''location_description'', JStr (location_description dep)),
      (''deployed_by'', JStr (deployed_by dep))]"

text \<open>
  The component's state: the refs of the script, and the two values it reads from the
  route (\<^verbatim>\<open>route.params.id\<close>, \<^verbatim>\<open>route.query.action\<close>).
\<close>

record drive_detail =
  route_id :: string
  route_action :: jsval
  drive :: "drive option"
  tokens :: "json_object list"
  loading :: bool
  showDeployModal :: bool
  deploying :: bool
  gettingLocation :: bool
  deployment :: deployment

definition script_setup :: "string \<Rightarrow> jsval \<Rightarrow> drive_detail" where
  "script_setup rid action =
     \<lparr>route_id = rid, route_action = action, drive = None, tokens = [], loading = True,
      showDeployModal = False, deploying = False, gettingLocation = False,
      deployment = initial_deployment\<rparr>"

text \<open>
  What a handler does besides changing the state, in order: requests sent through the
  API client, \<^verbatim>\<open>alert\<close> boxes, \<^verbatim>\<open>router.push\<close>, a file handed to the
  browser for download, \<^verbatim>\<open>console.error\<close>, and an exception (or rejected promise)
  that leaves the handler.
\<close>

datatype effect =
    Request request
  | Alert string
  | Push string
  | Download string
  | ConsoleError string
  | Throw string

text \<open>The server's answer to the two requests of \<^verbatim>\<open>loadDrive\<close>: the drive and
  its tokens, or \<open>None\<close> when either request fails.\<close>

type_synonym load_reply = "(drive \<times> json_object list) option"

definition loadDrive :: "load_reply \<Rightarrow> drive_detail \<Rightarrow> drive_detail \<times> effect list" where
  "loadDrive reply st =
     (let reqs = [Request (drives_get (route_id st)), Request (drives_tokens (route_id st))]
      in case reply of
           Some (d, ts) \<Rightarrow> (st\<lparr>drive := Some d, tokens := ts, loading := False\<rparr>, reqs)
         | None \<Rightarrow>
             (st\<lparr>loading := False\<rparr>,
              reqs @ [ConsoleError ''Failed to load drive:'', Push ''/drives'']))"

definition onMounted :: "load_reply \<Rightarrow> drive_detail \<Rightarrow> drive_detail \<times> effect list" where
  "onMounted reply st =
     (let (st1, es) = loadDrive reply st
      in (if route_action st = JStr ''deploy'' then st1\<lparr>showDeployModal := True\<rparr> else st1, es))"

text \<open>\<^verbatim>\<open>drive.value.id\<close> throws a TypeError while \<^verbatim>\<open>drive.value\<close> is null;
  \<open>ok\<close> says whether the server accepted the request.\<close>

definition prepareDrive :: "bool \<Rightarrow> load_reply \<Rightarrow> drive_detail \<Rightarrow> drive_detail \<times> effect list" where
  "prepareDrive ok reply st =
     (case drive st of
        None \<Rightarrow> (st, [Throw ''TypeError''])
      | Some d \<Rightarrow>
          if ok then (let (st1, es) = loadDrive reply st
                      in (st1, Request (drives_prepare (d_id d)) # es))
          else (st, [Request (drives_prepare (d_id d)), Throw ''rejected'']))"

definition downloadDrive :: "bool \<Rightarrow> drive_detail \<Rightarrow> drive_detail \<times> effect list" where
  "downloadDrive ok st =
     (case drive st of
        None \<Rightarrow> (st, [Throw ''TypeError''])
      | Some d \<Rightarrow>
          if ok then (st, [Request (drives_download (d_id d)), Download (unique_code d @ ''.zip'')])
          else (st, [Request (drives_download (d_id d)), Throw ''rejected'']))"

text \<open>The outcome of \<^verbatim>\<open>getCurrentLocation\<close>: no geolocation API, a position, or an
  error from the API. \<^verbatim>\<open>gettingLocation\<close> is set while the browser is asked and
  reset by either callback, so it is false again when the handler has run.\<close>

datatype geolocation = Unsupported | Position rat rat | PositionError

definition getCurrentLocation :: "geolocation \<Rightarrow> drive_detail \<Rightarrow> drive_detail \<times> effect list" where
  "getCurrentLocation g st =
     (case g of
        Unsupported \<Rightarrow> (st, [Alert ''Geolocation is not supported by your browser''])
      | Position la lo \<Rightarrow>
          (st\<lparr>deployment := (deployment st)\<lparr>latitude := JNum (Finite la),
                                              longitude := JNum (Finite lo)\<rparr>,
              gettingLocation := False\<rparr>, [])
      | PositionError \<Rightarrow>
          (st\<lparr>gettingLocation := False\<rparr>,
           [ConsoleError ''Geolocation error:'', Alert ''Failed to get current location'']))"

text \<open>
  \<^verbatim>\<open>deployDrive\<close>. The guard tests the two coordinates for truthiness. Past it,
  \<^verbatim>\<open>deploying\<close> is set, the request is sent, and on success the modal closes and
  the drive is loaded again; \<^verbatim>\<open>finally\<close> resets \<^verbatim>\<open>deploying\<close> on every
  path.
\<close>

definition deployDrive :: "bool \<Rightarrow> load_reply \<Rightarrow> drive_detail \<Rightarrow> drive_detail \<times> effect list" where
  "deployDrive ok reply st =
     (if \<not> truthy (latitude (deployment st)) \<or> \<not> truthy (longitude (deployment st))
      then (st, [Alert ''Please provide location coordinates''])
      else case drive st of
             None \<Rightarrow> (st\<lparr>deploying := False\<rparr>, [Throw ''TypeError''])
           | Some d \<Rightarrow>
               (let req = Request (drives_deploy (d_id d) (deployment_json (deployment st)))
                in if ok
                   then (let (st1, es) = loadDrive reply (st\<lparr>showDeployModal := False\<rparr>)
                         in (st1\<lparr>deploying := False\<rparr>, req # es))
                   else (st\<lparr>deploying := False\<rparr>, [req, Throw ''rejected''])))"

subsection \<open>The template\<close>

text \<open>
  The controls of the template that start an action, each under its
  \<^verbatim>\<open>v-if\<close>: the three buttons sit inside \<^verbatim>\<open>v-else-if="drive"\<close> (after
  \<^verbatim>\<open>v-if="loading"\<close>); the deploy form sits outside it, under
  \<^verbatim>\<open>v-if="showDeployModal"\<close> alone.
\<close>

datatype control = PrepareButton | DownloadButton | RecordDeploymentButton | DeployForm

definition rendered :: "drive_detail \<Rightarrow> control list" where
  "rendered st =
     (if loading st then []
      else case drive st of
             None \<Rightarrow> []
           | Some d \<Rightarrow>
               (if d_status d = ''created'' then [PrepareButton] else [])
               @ (if d_status d = ''prepared'' then [DownloadButton] else [])
               @ (if d_status d = ''prepared'' then [RecordDeploymentButton] else []))
     @ (if showDeployModal st then [DeployForm] else [])"

text \<open>
  A number input bound with \<^verbatim>\<open>v-model.number\<close>: the browser hands over the
  empty string for an empty or invalid field and the text of a number otherwise; Vue
  stores \<^verbatim>\<open>parseFloat\<close> of it when that is not NaN and the string itself
  otherwise.
\<close>

datatype number_input = Cleared | Typed rat

fun looseToNumber :: "number_input \<Rightarrow> jsval" where
  "looseToNumber Cleared = JStr ''''"
| "looseToNumber (Typed q) = JNum (Finite q)"

text \<open>What the operator can do on the page, with the answers of the server and of the
  browser that the handler will meet.\<close>

datatype ui_event =
    ClickPrepare bool load_reply
  | ClickDownload bool
  | ClickRecordDeployment
  | InputLatitude number_input
  | InputLongitude number_input
  | InputDescription string
  | InputDeployedBy string
  | ClickUseCurrentLocation geolocation
  | SubmitDeployForm bool load_reply
  | ClickCancel

fun control_of :: "ui_event \<Rightarrow> control" where
  "control_of (ClickPrepare _ _) = PrepareButton"
| "control_of (ClickDownload _) = DownloadButton"
| "control_of ClickRecordDeployment = RecordDeploymentButton"
| "control_of _ = DeployForm"

fun handle :: "ui_event \<Rightarrow> drive_detail \<Rightarrow> drive_detail \<times> effect list" where
  "handle (ClickPrepare ok reply) st = prepareDrive ok reply st"
| "handle (ClickDownload ok) st = downloadDrive ok st"
| "handle ClickRecordDeployment st = (st\<lparr>showDeployModal := True\<rparr>, [])"
| "handle (InputLatitude v) st =
     (st\<lparr>deployment := (deployment st)\<lparr>latitude := looseToNumber v\<rparr>\<rparr>, [])"
| "handle (InputLongitude v) st =
     (st\<lparr>deployment := (deployment st)\<lparr>longitude := looseToNumber v\<rparr>\<rparr>, [])"
| "handle (InputDescription s) st =
     (st\<lparr>deployment := (deployment st)\<lparr>location_description := s\<rparr>\<rparr>, [])"
| "handle (InputDeployedBy s) st =
     (st\<lparr>deployment := (deployment st)\<lparr>deployed_by := s\<rparr>\<rparr>, [])"
| "handle (ClickUseCurrentLocation g) st = getCurrentLocation g st"
| "handle (SubmitDeployForm ok reply) st = deployDrive ok reply st"
| "handle ClickCancel st = (st\<lparr>showDeployModal := False\<rparr>, [])"

text \<open>An event reaches its handler only when its control is on the page.\<close>

definition ui_step :: "drive_detail \<times> effect list \<Rightarrow> ui_event \<Rightarrow> drive_detail \<times> effect list" where
  "ui_step acc e =
     (let (st, past) = acc
      in if control_of e \<in> set (rendered st)
         then (let (st1, es) = handle e st in (st1, past @ es))
         else (st, past))"

text \<open>A session on the page: the component is set up and mounted, then the events
  arrive one after the other.\<close>

definition session :: "string \<Rightarrow> jsval \<Rightarrow> load_reply \<Rightarrow> ui_event list \<Rightarrow> drive_detail \<times> effect list" where
  "session rid action reply evs = foldl ui_step (onMounted reply (script_setup rid action)) evs"

subsection \<open>Well-formed pages\<close>

text \<open>What holds of a page and of the effects it has produced so far: the two
  coordinates are null, empty or finite numbers, and every POST sent is a prepare
  request or a deploy request whose body has the four fields, the coordinates as
  numbers.\<close>

definition coordinate_ok :: "jsval \<Rightarrow> bool" where
  "coordinate_ok v = (v = JNull \<or> v = JStr '''' \<or> (\<exists>q. v = JNum (Finite q)))"

definition deploy_shaped :: "request \<Rightarrow> bool" where
  "deploy_shaped r =
     (\<exists>did la lo s t.
        r = \<lparr>verb = POST, url = ''/drives/'' @ did @ ''/deploy'', params = [],
             data = Some [(''latitude'', JNum (Finite la)), (''longitude'', JNum (Finite lo)),
                          (''location_description'', JStr s), (''deployed_by'', JStr t)]\<rparr>)"

definition page_ok :: "drive_detail \<times> effect list \<Rightarrow> bool" where
  "page_ok acc =
     (coordinate_ok (latitude (deployment (fst acc)))
      \<and> coordinate_ok (longitude (deployment (fst acc)))
      \<and> (\<forall>r. Request r \<in> set (snd acc) \<and> verb r = POST
            \<longrightarrow> (\<exists>did. r = drives_prepare did) \<or> deploy_shaped r))"

section \<open>The drive list view\<close>

text \<open>
  \<^verbatim>\<open>views/Drives.vue\<close>: the actions cell of a row. The deploy link leads to the
  detail page with \<^verbatim>\<open>?action=deploy\<close>.
\<close>

datatype row_action = RowPrepare | RowDownload | RowDeployLink string | RowView string

definition row_actions :: "drive \<Rightarrow> row_action list" where
  "row_actions d =
     (if d_status d = ''created'' then [RowPrepare] else [])
     @ (if d_status d = ''prepared'' then [RowDownload] else [])
     @ (if d_status d = ''prepared''
        then [RowDeployLink (''/drives/'' @ d_id d @ ''?action=deploy'')] else [])
     @ [RowView (''/drives/'' @ d_id d)]"

section \<open>The alerts view: the list\<close>

text \<open>
  \<^verbatim>\<open>views/Alerts.vue\<close>, the \<^verbatim>\<open>v-for\<close> over \<^verbatim>\<open>alerts\<close>. An alert
  is a record of the JSON array \<^verbatim>\<open>GET /alerts/recent\<close> returns; every field
  the template reads may be null. \<open>a_drive_code\<close>, \<open>a_token_type\<close> and so on are the
  alert's \<^verbatim>\<open>drive_code\<close>, \<^verbatim>\<open>token_type\<close>, ...
\<close>

record alert =
  a_drive_id :: jsval
  a_drive_code :: jsval
  a_token_type :: jsval
  a_token_filename :: jsval
  a_source_ip :: jsval
  a_geo_city :: jsval
  a_geo_country :: jsval
  a_user_agent :: jsval
  a_triggered_at :: jsval

text \<open>
  What one list item shows. An interpolation \<^verbatim>\<open>{{ e }}\<close> is kept as the value of
  \<open>e\<close> (Vue prints null and undefined as the empty string); a line under a
  \<^verbatim>\<open>v-if\<close> is \<open>None\<close> when it is not rendered.
\<close>

record alert_item =
  heading :: "jsval list"
  filename_tag :: "jsval option"
  ip_line :: jsval
  location_line :: "jsval list option"
  user_agent_line :: "jsval option"
  time_of :: jsval

definition render_alert :: "alert \<Rightarrow> alert_item" where
  "render_alert a =
     \<lparr>heading = [a_drive_code a, a_token_type a],
      filename_tag = (if truthy (a_token_filename a) then Some (a_token_filename a) else None),
      ip_line = js_or (a_source_ip a) (JStr ''Unknown IP''),
      location_line =
        (if truthy (js_or (a_geo_city a) (a_geo_country a))
         then Some [a_geo_city a,
                    (if truthy (js_and (a_geo_city a) (a_geo_country a))
                     then JStr '', '' else JStr ''''),
                    a_geo_country a]
         else None),
      user_agent_line = (if truthy (a_user_agent a) then Some (a_user_agent a) else None),
      time_of = a_triggered_at a\<rparr>"

definition render_alerts :: "alert list \<Rightarrow> alert_item list" where
  "render_alerts as = map render_alert as"

section \<open>The map view\<close>

text \<open>
  \<^verbatim>\<open>views/MapView.vue\<close>. \<^verbatim>\<open>mapData\<close> is the answer of
  \<^verbatim>\<open>GET /alerts/map\<close>; its two arrays are read with \<^verbatim>\<open>?.\<close>, so each may
  be missing (\<open>None\<close>).
\<close>

record map_deployment =
  m_drive_code :: jsval
  m_latitude :: jsval
  m_longitude :: jsval
  m_location_description :: jsval
  m_deployed_at :: jsval

record map_trigger =
  t_drive_code :: jsval
  t_token_type :: jsval
  t_filename :: jsval
  geo_latitude :: jsval
  geo_longitude :: jsval
  geo_city :: jsval
  geo_country :: jsval
  t_source_ip :: jsval
  t_triggered_at :: jsval

record map_data =
  deployments :: "map_deployment list option"
  triggers :: "map_trigger list option"

datatype icon = deploymentIcon | triggerIcon

text \<open>A marker: its icon, its position and the values its popup interpolates.\<close>

record marker =
  marker_icon :: icon
  position :: "jsval \<times> jsval"
  popup :: "jsval list"

definition deployment_marker :: "map_deployment \<Rightarrow> marker" where
  "deployment_marker d =
     \<lparr>marker_icon = deploymentIcon, position = (m_latitude d, m_longitude d),
      popup = [m_drive_code d, js_or (m_location_description d) (JStr ''No description''),
               m_deployed_at d]\<rparr>"

definition trigger_marker :: "map_trigger \<Rightarrow> marker" where
  "trigger_marker t =
     \<lparr>marker_icon = triggerIcon, position = (geo_latitude t, geo_longitude t),
      popup = [t_drive_code t, t_token_type t, js_or (t_filename t) (JStr ''DNS''),
               js_or (geo_city t) (JStr ''''),
               (if truthy (js_and (geo_city t) (geo_country t)) then JStr '', '' else JStr ''''),
               js_or (geo_country t) (JStr ''''),
               js_or (t_source_ip t) (JStr ''Unknown''), t_triggered_at t]\<rparr>"

text \<open>
  \<^verbatim>\<open>updateMarkers\<close>: the old markers are removed, then each layer the filter
  \<^verbatim>\<open>filters.type\<close> selects adds a marker for every record that passes the test
  \<^verbatim>\<open>if (x.latitude && x.longitude)\<close>. The result is the markers on the map and
  the bounds handed to \<^verbatim>\<open>fitBounds\<close> (\<open>None\<close> when there is no marker).
\<close>

definition updateMarkers :: "string \<Rightarrow> map_data \<Rightarrow> marker list \<times> (jsval \<times> jsval) list option" where
  "updateMarkers filter_type md =
     (let ds = (if filter_type = ''deployments'' \<or> filter_type = ''both''
                then (case deployments md of
                        None \<Rightarrow> []
                      | Some xs \<Rightarrow>
                          map deployment_marker
                            [d \<leftarrow> xs. truthy (js_and (m_latitude d) (m_longitude d))])
                else []);
          ts = (if filter_type = ''triggers'' \<or> filter_type = ''both''
                then (case triggers md of
                        None \<Rightarrow> []
                      | Some xs \<Rightarrow>
                          map trigger_marker
                            [t \<leftarrow> xs. truthy (js_and (geo_latitude t) (geo_longitude t))])
                else []);
          bounds = map position (ds @ ts)
      in (ds @ ts, if length bounds > 0 then Some bounds else None))"

section \<open>JavaScript arithmetic\<close>

text \<open>
  Numbers are IEEE 754 binary64 values and every arithmetic operation returns the
  correctly rounded result (round to nearest, ties to even). \<open>fl\<close> rounds an exact
  rational: \<open>binade a\<close> is the exponent \<open>\<lfloor>log\<^sub>2 a\<rfloor>\<close> of a positive \<open>a\<close>, the
  significand has 53 bits, exponents below \<open>-1022\<close> are subnormal, and a result of
  \<open>2\<^sup>1\<^sup>0\<^sup>2\<^sup>4\<close> or more is an infinity. Negative zero is not told apart from zero.
\<close>

fun floor_log2 :: "nat \<Rightarrow> nat" where
  "floor_log2 n = (if n < 2 then 0 else Suc (floor_log2 (n div 2)))"

definition pow2 :: "int \<Rightarrow> rat" where
  "pow2 k = (if 0 \<le> k then 2 ^ nat k else 1 / 2 ^ nat (- k))"

definition binade :: "rat \<Rightarrow> int" where
  "binade a =
     (if 1 \<le> a then int (floor_log2 (nat \<lfloor>a\<rfloor>))
      else - int (Suc (floor_log2 (nat (\<lceil>1 / a\<rceil> - 1)))))"

definition round_half_even :: "rat \<Rightarrow> int" where
  "round_half_even x =
     (let f = \<lfloor>x\<rfloor>; r = x - of_int f
      in if r < 1 / 2 then f else if 1 / 2 < r then f + 1 else if even f then f else f + 1)"

definition fl :: "rat \<Rightarrow> number" where
  "fl x =
     (if x = 0 then Finite 0
      else let a = \<bar>x\<bar>;
               e = max (binade a) (- 1022);
               ulp = pow2 (e - 52);
               r = of_int (round_half_even (a / ulp)) * ulp
           in if pow2 1024 \<le> r then Infinity (x < 0)
              else Finite (if x < 0 then - r else r))"

text \<open>The operators \<^verbatim>\<open>/\<close> and \<^verbatim>\<open>*\<close> on numbers.\<close>

fun js_div :: "number \<Rightarrow> number \<Rightarrow> number" where
  "js_div NaN _ = NaN"
| "js_div _ NaN = NaN"
| "js_div (Infinity s) (Infinity t) = NaN"
| "js_div (Infinity s) (Finite y) = Infinity (s \<noteq> (y < 0))"
| "js_div (Finite x) (Infinity t) = Finite 0"
| "js_div (Finite x) (Finite y) =
     (if y = 0 then (if x = 0 then NaN else Infinity (x < 0)) else fl (x / y))"

fun js_mul :: "number \<Rightarrow> number \<Rightarrow> number" where
  "js_mul NaN _ = NaN"
| "js_mul _ NaN = NaN"
| "js_mul (Infinity s) (Infinity t) = Infinity (s \<noteq> t)"
| "js_mul (Infinity s) (Finite y) = (if y = 0 then NaN else Infinity (s \<noteq> (y < 0)))"
| "js_mul (Finite x) (Infinity t) = (if x = 0 then NaN else Infinity ((x < 0) \<noteq> t))"
| "js_mul (Finite x) (Finite y) = fl (x * y)"

text \<open>\<^verbatim>\<open>Math.round\<close>: the nearest integer, a tie going up.\<close>

fun Math_round :: "number \<Rightarrow> number" where
  "Math_round NaN = NaN"
| "Math_round (Infinity s) = Infinity s"
| "Math_round (Finite x) = Finite (of_int \<lfloor>x + 1 / 2\<rfloor>)"

text \<open>ToNumber, the conversion the arithmetic operators apply to their operands.
  \<open>string_to_number\<close> is the conversion of a string, which the views never need for the
  counts of a statistics object.\<close>

fun ToNumber :: "(string \<Rightarrow> number) \<Rightarrow> jsval \<Rightarrow> number" where
  "ToNumber string_to_number JUndefined = NaN"
| "ToNumber string_to_number JNull = Finite 0"
| "ToNumber string_to_number (JBool b) = Finite (if b then 1 else 0)"
| "ToNumber string_to_number (JNum n) = n"
| "ToNumber string_to_number (JStr s) = string_to_number s"

section \<open>The success rate cards\<close>

text \<open>
  \<^verbatim>\<open>views/CampaignDetail.vue\<close> shows
  \<^verbatim>\<open>stats?.deployed ? Math.round((stats.triggered / stats.deployed) * 100) : 0\<close>;
  the report view shows the same expression over \<^verbatim>\<open>report\<close>, which is not null
  where the card is rendered. Of a statistics object only the two counts matter here.
  The result is the number shown before the percent sign, together with the operands
  of every division that was evaluated on the way.
\<close>

record stats =
  deployed :: jsval
  triggered :: jsval

definition success_rate ::
  "(string \<Rightarrow> number) \<Rightarrow> stats option \<Rightarrow> number \<times> (number \<times> number) list" where
  "success_rate string_to_number st =
     (case st of
        None \<Rightarrow> (Finite 0, [])
      | Some s \<Rightarrow>
          if truthy (deployed s)
          then (let n = ToNumber string_to_number (triggered s);
                    d = ToNumber string_to_number (deployed s)
                in (Math_round (js_mul (js_div n d) (Finite 100)), [(n, d)]))
          else (Finite 0, []))"

definition report_success_rate ::
  "(string \<Rightarrow> number) \<Rightarrow> stats \<Rightarrow> number \<times> (number \<times> number) list" where
  "report_success_rate string_to_number report = success_rate string_to_number (Some report)"

text \<open>A string conversion for statistics objects that hold no strings: it is never
  consulted there, and answers NaN.\<close>

definition unparsed :: "string \<Rightarrow> number" where
  "unparsed s = NaN"

fun is_string :: "jsval \<Rightarrow> bool" where
  "is_string (JStr s) = True"
| "is_string _ = False"

section \<open>The axios instance and its interceptors\<close>

text \<open>
  \<^verbatim>\<open>services/api.js\<close>. A request config carries the request, the
  \<^verbatim>\<open>Authorization\<close> header and the flag \<^verbatim>\<open>_retry\<close> (\<open>retried\<close>) that
  the response interceptor sets on a config it has handled. \<^verbatim>\<open>localStorage\<close>
  is a map from keys to strings; \<^verbatim>\<open>getItem\<close> of a missing key is null.
\<close>

record config =
  target :: request
  authorization :: "string option"
  retried :: bool

text \<open>The error axios rejects with: the config of the failed request and the status of
  the response, if there was one.\<close>

record axios_error =
  err_config :: config
  err_status :: "nat option"

datatype outcome = Resolved nat | Rejected axios_error

text \<open>
  The world the interceptors act on: \<^verbatim>\<open>localStorage\<close>,
  \<^verbatim>\<open>window.location.href\<close>, the configs sent through the instance so far and
  the refresh tokens posted to \<^verbatim>\<open>/api/auth/refresh\<close> so far.
\<close>

record world =
  storage :: "string \<rightharpoonup> string"
  location :: string
  sent :: "config list"
  refreshes :: "string list"

text \<open>
  The server: its answer to the \<open>n\<close>-th request sent through the instance (a status, or
  no response at all), and its answer to the \<open>n\<close>-th refresh call (a new pair of tokens,
  or a failure).
\<close>

datatype reply = Status nat | NoResponse

datatype refresh_reply = Tokens string string | RefreshFailed

record server =
  api_reply :: "nat \<Rightarrow> config \<Rightarrow> reply"
  refresh_reply :: "nat \<Rightarrow> string \<Rightarrow> refresh_reply"

text \<open>A stored string as the condition of an \<^verbatim>\<open>if\<close>: null and the empty string
  are falsy.\<close>

definition stored :: "world \<Rightarrow> string \<Rightarrow> string option" where
  "stored w k = (case storage w k of None \<Rightarrow> None | Some v \<Rightarrow> if v = [] then None else Some v)"

text \<open>The request interceptor adds the bearer token when one is stored.\<close>

definition request_interceptor :: "world \<Rightarrow> config \<Rightarrow> config" where
  "request_interceptor w cfg =
     (case stored w ''accessToken'' of
        None \<Rightarrow> cfg
      | Some t \<Rightarrow> cfg\<lparr>authorization := Some (''Bearer '' @ t)\<rparr>)"

text \<open>
  \<open>api_call\<close> is \<^verbatim>\<open>api(config)\<close>: the request interceptor, the request itself,
  and the response interceptor, whose success handler is the identity and whose error
  handler is \<open>on_rejected\<close> (axios rejects every status outside 200..299).
  \<open>on_rejected\<close> marks the config, posts the stored refresh token with plain
  \<^verbatim>\<open>axios\<close> (no interceptors), and on success stores the new tokens, sets the header
  and returns \<^verbatim>\<open>api(originalRequest)\<close>; when the refresh call fails it removes
  both tokens and sends the browser to \<^verbatim>\<open>/login\<close>. Every path that does not
  return the replay ends in \<^verbatim>\<open>Promise.reject(error)\<close>.
\<close>

function api_call :: "server \<Rightarrow> world \<Rightarrow> config \<Rightarrow> world \<times> outcome"
  and on_rejected :: "server \<Rightarrow> world \<Rightarrow> axios_error \<Rightarrow> world \<times> outcome" where
  "api_call srv w cfg =
     (let cfg1 = request_interceptor w cfg;
          w1 = w\<lparr>sent := sent w @ [cfg1]\<rparr>
      in case api_reply srv (length (sent w)) cfg1 of
           Status code \<Rightarrow>
             if 200 \<le> code \<and> code < 300 then (w1, Resolved code)
             else on_rejected srv w1 \<lparr>err_config = cfg1, err_status = Some code\<rparr>
         | NoResponse \<Rightarrow> on_rejected srv w1 \<lparr>err_config = cfg1, err_status = None\<rparr>)"
| "on_rejected srv w err =
     (if err_status err = Some 401 \<and> \<not> retried (err_config err)
      then (let originalRequest = (err_config err)\<lparr>retried := True\<rparr>;
                err1 = err\<lparr>err_config := originalRequest\<rparr>
            in case stored w ''refreshToken'' of
                 None \<Rightarrow> (w, Rejected err1)
               | Some rt \<Rightarrow>
                   (let w1 = w\<lparr>refreshes := refreshes w @ [rt]\<rparr>
                    in case refresh_reply srv (length (refreshes w)) rt of
                         Tokens newToken newRefresh \<Rightarrow>
                           api_call srv
                             (w1\<lparr>storage := (storage w1)(''accessToken'' \<mapsto> newToken,
                                                          ''refreshToken'' \<mapsto> newRefresh)\<rparr>)
                             (originalRequest\<lparr>authorization := Some (''Bearer '' @ newToken)\<rparr>)
                       | RefreshFailed \<Rightarrow>
                           (w1\<lparr>storage := (storage w1)(''accessToken'' := None,
                                                        ''refreshToken'' := None),
                               location := ''/login''\<rparr>,
                            Rejected err1)))
      else (w, Rejected err))"
  by pat_completeness auto
termination
  by (relation "measure (\<lambda>x. case x of
          Inl (srv, w, cfg) \<Rightarrow> if retried cfg then 1 else 3
        | Inr (srv, w, err) \<Rightarrow> if retried (err_config err) then 0 else 2)")
     (auto simp: request_interceptor_def split: option.splits)

section \<open>The trigger ingestion pipeline\<close>

text \<open>
  Modelled from the spec: the webhook ingestion of the backend (\<^verbatim>\<open>campaign-api\<close>),
  whose code is not among the sources. The definitions follow sections 4.1 to 4.3 of the
  specification: the drive state machine, the token registry, and the six steps of
  \<open>ingest\<close>.
\<close>

datatype drive_status = Created | Prepared | Deployed | Triggered | Recovered














chapter \<open>Properties\<close>

section \<open>The navigation guard\<close>

lemma table_meta_login: "table_meta ''/login'' = JBool True"
  by (simp add: table_meta_def routes_def)

text \<open>
  C9. The guard redirects to \<^verbatim>\<open>/login\<close> when the target lacks
  \<^verbatim>\<open>meta.public\<close> and the store holds no access token, redirects to
  \<^verbatim>\<open>/\<close> when the target is \<^verbatim>\<open>/login\<close> and a token is present, and
  lets every other navigation proceed unchanged. Hence a navigation that proceeds
  without a token has a public target, and, \<^verbatim>\<open>/login\<close> being public, an
  unauthenticated session that follows the redirects settles within two guard runs on
  a public route: the target itself when it is public, \<^verbatim>\<open>/login\<close> otherwise.
\<close>

theorem beforeEach_guards_private_routes:
  "(\<not> truthy (meta_public to) \<and> \<not> isAuthenticated store
      \<longrightarrow> beforeEach to store = Redirect ''/login'')
   \<and> (path to = ''/login'' \<and> isAuthenticated store
      \<longrightarrow> beforeEach to store = Redirect ''/'')
   \<and> (\<not> (\<not> truthy (meta_public to) \<and> \<not> isAuthenticated store)
       \<and> \<not> (path to = ''/login'' \<and> isAuthenticated store)
      \<longrightarrow> beforeEach to store = Proceed)
   \<and> (accessToken store = JNull \<longrightarrow> \<not> isAuthenticated store)
   \<and> (beforeEach to store = Proceed \<and> \<not> isAuthenticated store
      \<longrightarrow> truthy (meta_public to))
   \<and> (\<not> isAuthenticated store \<and> truthy (meta ''/login'')
      \<longrightarrow> navigate (Suc (Suc n)) meta store p
            = Some (if truthy (meta p) then p else ''/login'')
          \<and> truthy (meta (if truthy (meta p) then p else ''/login'')))"
  by (auto simp: beforeEach_def isAuthenticated_def)

theorem beforeEach_guards_private_routes_witness:
  "beforeEach \<lparr>path = ''/drives'', meta_public = JUndefined\<rparr>
       \<lparr>accessToken = JNull, refreshToken = JNull\<rparr> = Redirect ''/login''
   \<and> beforeEach \<lparr>path = ''/login'', meta_public = JBool True\<rparr>
       \<lparr>accessToken = JStr ''tok'', refreshToken = JNull\<rparr> = Redirect ''/''
   \<and> beforeEach \<lparr>path = ''/drives'', meta_public = JUndefined\<rparr>
       \<lparr>accessToken = JStr ''tok'', refreshToken = JNull\<rparr> = Proceed
   \<and> navigate 2 table_meta \<lparr>accessToken = JNull, refreshToken = JNull\<rparr> ''/drives''
       = Some ''/login''"
  using beforeEach_guards_private_routes
    [of "\<lparr>path = ''/drives'', meta_public = JUndefined\<rparr>"
        "\<lparr>accessToken = JNull, refreshToken = JNull\<rparr>" table_meta 0 "''/drives''"]
    beforeEach_guards_private_routes
    [of "\<lparr>path = ''/login'', meta_public = JBool True\<rparr>"
        "\<lparr>accessToken = JStr ''tok'', refreshToken = JNull\<rparr>" table_meta 0 "''/drives''"]
    beforeEach_guards_private_routes
    [of "\<lparr>path = ''/drives'', meta_public = JUndefined\<rparr>"
        "\<lparr>accessToken = JStr ''tok'', refreshToken = JNull\<rparr>" table_meta 0 "''/drives''"]
  by (simp add: isAuthenticated_def numeral_2_eq_2 table_meta_login)
     (simp add: table_meta_def routes_def)

section \<open>The alert read paths\<close>

lemma hours_reachable:
  "hours (foldl apply_filter_event initial_filters evs) \<in> fst ` set hourOptions"
proof -
  have step: "hours f \<in> fst ` set hourOptions
      \<Longrightarrow> hours (apply_filter_event f e) \<in> fst ` set hourOptions" for f e
    by (cases e) (auto simp del: image_eqI intro!: imageI nth_mem)
  have "hours f \<in> fst ` set hourOptions
      \<Longrightarrow> hours (foldl apply_filter_event f evs) \<in> fst ` set hourOptions" for f
    by (induction evs arbitrary: f) (simp_all add: step)
  moreover have "hours initial_filters \<in> fst ` set hourOptions"
    by (simp add: initial_filters_def hourOptions_def)
  ultimately show ?thesis by blast
qed

lemma hourOptions_values:
  "map fst hourOptions
     = map (\<lambda>k. JNum (Finite (of_int k))) [1, 6, 24, 72, 168, 720]"
  by (simp add: hourOptions_def)

text \<open>
  C7. \<^verbatim>\<open>alertsApi.recent\<close> requests \<^verbatim>\<open>GET /alerts/recent\<close> with the
  single parameter \<^verbatim>\<open>hours\<close>, 24 when the caller gives none and the caller's
  value otherwise. In the alerts view \<^verbatim>\<open>filters.hours\<close> starts at 24 and,
  whatever the operator selects, stays one of 1, 6, 24, 72, 168, 720, so every request
  \<^verbatim>\<open>loadAlerts\<close> issues carries one of these integers; the dashboard asks for 24.
  The map read path requests \<^verbatim>\<open>GET /alerts/map\<close>.
\<close>

theorem alerts_read_paths:
  "alerts_recent JUndefined = api_get ''/alerts/recent'' [(''hours'', JNum (Finite 24))]
   \<and> verb (alerts_recent h) = GET
   \<and> url (alerts_recent h) = ''/alerts/recent''
   \<and> params (alerts_recent h) = [(''hours'', if h = JUndefined then JNum (Finite 24) else h)]
   \<and> hours initial_filters = JNum (Finite 24)
   \<and> map fst hourOptions = map (\<lambda>k. JNum (Finite (of_int k))) [1, 6, 24, 72, 168, 720]
   \<and> hours (foldl apply_filter_event initial_filters evs) \<in> fst ` set hourOptions
   \<and> is_integer (hours (foldl apply_filter_event initial_filters evs))
   \<and> hd (loadAlerts (foldl apply_filter_event initial_filters evs))
       = api_get ''/alerts/recent''
           [(''hours'', hours (foldl apply_filter_event initial_filters evs))]
   \<and> dashboard_recent = api_get ''/alerts/recent'' [(''hours'', JNum (Finite 24))]
   \<and> verb (alerts_map ps) = GET \<and> url (alerts_map ps) = ''/alerts/map''
   \<and> verb (loadMapData_request cid) = GET
   \<and> url (loadMapData_request cid) = ''/alerts/map''"
proof -
  let ?f = "foldl apply_filter_event initial_filters evs"
  have mem: "hours ?f \<in> fst ` set hourOptions"
    by (rule hours_reachable)
  then have int: "is_integer (hours ?f)"
    by (auto simp: hourOptions_def)
  have undef: "hours ?f \<noteq> JUndefined"
    using mem by (auto simp: hourOptions_def)
  have load: "hd (loadAlerts ?f) = api_get ''/alerts/recent'' [(''hours'', hours ?f)]"
    using undef by (simp add: loadAlerts_def alerts_recent_def)
  show ?thesis
    using mem int load
    by (simp add: alerts_recent_def api_get_def initial_filters_def hourOptions_values
        dashboard_recent_def alerts_map_def loadMapData_request_def)
qed

section \<open>Campaign status\<close>

lemma status_after_events:
  "status (foldl apply_edit_event f evs) = status f
   \<or> status (foldl apply_edit_event f evs) \<in> (JStr \<circ> fst) ` set status_options"
proof (induction evs arbitrary: f)
  case Nil
  show ?case by simp
next
  case (Cons e evs)
  have step: "status (apply_edit_event f e) = status f
      \<or> status (apply_edit_event f e) \<in> (JStr \<circ> fst) ` set status_options"
    by (cases e) (auto simp del: image_eqI intro!: imageI nth_mem)
  from Cons.IH [of "apply_edit_event f e"] step show ?case
    by (auto simp: rev_image_eqI)
qed

text \<open>
  C6. The status select of the edit form offers exactly \<^verbatim>\<open>draft\<close>,
  \<^verbatim>\<open>active\<close>, \<^verbatim>\<open>completed\<close> and \<^verbatim>\<open>archived\<close>; selecting an
  option stores its value in the form and no other control touches it, so after any
  editing the form's status is the loaded one or one of the four. \<^verbatim>\<open>updateCampaign\<close>
  sends \<^verbatim>\<open>PUT /campaigns/{id}\<close> with the form's status unchanged, and it is the
  only campaign-changing request of the views whose body has a \<^verbatim>\<open>status\<close> key.
\<close>

theorem campaign_status_operator_set:
  "map fst status_options = [''draft'', ''active'', ''completed'', ''archived'']
   \<and> (i < length status_options \<longrightarrow>
        status (apply_edit_event f (SelectStatus i)) = JStr (fst (status_options ! i)))
   \<and> status (apply_edit_event f (EditName s)) = status f
   \<and> status (apply_edit_event f (EditClientName s)) = status f
   \<and> status (apply_edit_event f (EditDescription s)) = status f
   \<and> (status (foldl apply_edit_event (load_editForm c) evs) = c_status c
       \<or> status (foldl apply_edit_event (load_editForm c) evs)
            \<in> JStr ` {''draft'', ''active'', ''completed'', ''archived''})
   \<and> verb (updateCampaign c f) = PUT
   \<and> url (updateCampaign c f) = ''/campaigns/'' @ c_id c
   \<and> map_option (\<lambda>d. map_of d ''status'') (data (updateCampaign c f)) = Some (Some (status f))
   \<and> [r \<leftarrow> campaign_writes nc c f confirmed. body_has ''status'' r] = [updateCampaign c f]"
proof -
  have opts: "(JStr \<circ> fst) ` set status_options
      = JStr ` {''draft'', ''active'', ''completed'', ''archived''}"
    by (simp add: status_options_def)
  have reach: "status (foldl apply_edit_event (load_editForm c) evs) = c_status c
       \<or> status (foldl apply_edit_event (load_editForm c) evs)
            \<in> JStr ` {''draft'', ''active'', ''completed'', ''archived''}"
    using status_after_events [of "load_editForm c" evs]
    unfolding opts by (simp add: load_editForm_def)
  have writes: "[r \<leftarrow> campaign_writes nc c f confirmed. body_has ''status'' r]
      = [updateCampaign c f]"
    by (simp add: campaign_writes_def body_has_def createCampaign_def updateCampaign_def
        deleteCampaign_def campaigns_create_def campaigns_update_def campaigns_delete_def
        api_post_def api_put_def api_delete_def editForm_json_def)
  have put: "verb (updateCampaign c f) = PUT
      \<and> url (updateCampaign c f) = ''/campaigns/'' @ c_id c
      \<and> map_option (\<lambda>d. map_of d ''status'') (data (updateCampaign c f))
          = Some (Some (status f))"
    by (simp add: updateCampaign_def campaigns_update_def api_put_def editForm_json_def)
  have opt_list: "map fst status_options = [''draft'', ''active'', ''completed'', ''archived'']"
    by (simp add: status_options_def)
  show ?thesis
    using reach writes put opt_list by simp
qed

theorem campaign_status_operator_set_witness:
  "(2::nat) < length status_options
   \<and> status (apply_edit_event
        (load_editForm \<lparr>c_id = ''7'', c_name = JStr ''Q1'', c_client_name = JNull,
           c_description = JNull, c_status = JStr ''draft''\<rparr>) (SelectStatus 2))
      = JStr ''completed''
   \<and> updateCampaign
        \<lparr>c_id = ''7'', c_name = JStr ''Q1'', c_client_name = JNull,
           c_description = JNull, c_status = JStr ''draft''\<rparr>
        (apply_edit_event
          (load_editForm \<lparr>c_id = ''7'', c_name = JStr ''Q1'', c_client_name = JNull,
             c_description = JNull, c_status = JStr ''draft''\<rparr>) (SelectStatus 2))
      = api_put ''/campaigns/7''
          (Some [(''name'', JStr ''Q1''), (''client_name'', JNull),
                 (''description'', JNull), (''status'', JStr ''completed'')])"
  using campaign_status_operator_set
    [of 2 "load_editForm \<lparr>c_id = ''7'', c_name = JStr ''Q1'', c_client_name = JNull,
           c_description = JNull, c_status = JStr ''draft''\<rparr>"]
  by (simp add: status_options_def load_editForm_def updateCampaign_def
      campaigns_update_def editForm_json_def)

section \<open>Deploying a drive\<close>

text \<open>The coordinates the form can hold: the initial null, the empty string of a
  cleared field, or a finite number.\<close>

lemma looseToNumber_cases:
  "looseToNumber v = JStr '''' \<or> (\<exists>q. looseToNumber v = JNum (Finite q))"
  by (cases v) simp_all

lemma loadDrive_deployment: "deployment (fst (loadDrive reply st)) = deployment st"
  by (simp add: loadDrive_def Let_def split: option.splits prod.splits)

lemma loadDrive_requests:
  "Request r \<in> set (snd (loadDrive reply st)) \<Longrightarrow> verb r = GET"
  by (auto simp: loadDrive_def Let_def drives_get_def drives_tokens_def api_get_def
      split: option.splits prod.splits)

lemma deployDrive_deployment:
  "deployment (fst (deployDrive ok reply st)) = deployment st"
proof -
  have "deployment (fst (loadDrive reply (st\<lparr>showDeployModal := False\<rparr>))) = deployment st"
    by (simp add: loadDrive_deployment)
  then show ?thesis
    by (auto simp: deployDrive_def Let_def split: option.splits prod.splits)
qed

lemma deployDrive_requests:
  assumes "Request r \<in> set (snd (deployDrive ok reply st))" and "verb r = POST"
  shows "truthy (latitude (deployment st)) \<and> truthy (longitude (deployment st))
     \<and> (\<exists>d. drive st = Some d
          \<and> r = drives_deploy (d_id d) (deployment_json (deployment st)))"
proof (cases "\<not> truthy (latitude (deployment st)) \<or> \<not> truthy (longitude (deployment st))")
  case True
  with assms show ?thesis by (simp add: deployDrive_def)
next
  case False
  show ?thesis
  proof (cases "drive st")
    case None
    with False assms show ?thesis by (simp add: deployDrive_def)
  next
    case (Some d)
    show ?thesis
    proof (cases ok)
      case True
      obtain st1 es where l: "loadDrive reply (st\<lparr>showDeployModal := False\<rparr>) = (st1, es)"
        by (cases "loadDrive reply (st\<lparr>showDeployModal := False\<rparr>)")
      have "Request r \<notin> set es"
        using loadDrive_requests [of r reply "st\<lparr>showDeployModal := False\<rparr>"] l assms(2)
        by auto
      with assms False Some True l show ?thesis
        by (simp add: deployDrive_def Let_def)
    next
      case no: False
      with assms False Some show ?thesis
        by (simp add: deployDrive_def Let_def)
    qed
  qed
qed

lemma deployDrive_posts:
  "truthy (latitude (deployment st)) \<Longrightarrow> truthy (longitude (deployment st))
   \<Longrightarrow> drive st = Some d
   \<Longrightarrow> Request (drives_deploy (d_id d) (deployment_json (deployment st)))
        \<in> set (snd (deployDrive ok reply st))"
  by (simp add: deployDrive_def Let_def split: prod.splits)

lemma deployDrive_rejects:
  "\<not> truthy (latitude (deployment st)) \<or> \<not> truthy (longitude (deployment st))
   \<Longrightarrow> deployDrive ok reply st = (st, [Alert ''Please provide location coordinates''])"
  by (simp add: deployDrive_def)

lemma deployDrive_shaped:
  assumes "coordinate_ok (latitude (deployment st))"
    and "coordinate_ok (longitude (deployment st))"
    and "Request r \<in> set (snd (deployDrive ok reply st))" and "verb r = POST"
  shows "deploy_shaped r"
proof -
  from deployDrive_requests [OF assms(3,4)] obtain d :: drive where
    t: "truthy (latitude (deployment st))" "truthy (longitude (deployment st))"
    and r: "r = drives_deploy (d_id d) (deployment_json (deployment st))"
    by blast
  from assms(1) t(1) obtain la where la: "latitude (deployment st) = JNum (Finite la)"
    by (auto simp: coordinate_ok_def)
  from assms(2) t(2) obtain lo where lo: "longitude (deployment st) = JNum (Finite lo)"
    by (auto simp: coordinate_ok_def)
  show ?thesis
    unfolding deploy_shaped_def r drives_deploy_def api_post_def deployment_json_def la lo
    by blast
qed

lemma prepareDrive_effects:
  "deployment (fst (prepareDrive ok reply st)) = deployment st
   \<and> (Request r \<in> set (snd (prepareDrive ok reply st)) \<and> verb r = POST
        \<longrightarrow> (\<exists>did. r = drives_prepare did))"
proof (cases "drive st")
  case None
  then show ?thesis by (simp add: prepareDrive_def)
next
  case (Some d)
  obtain st1 es where l: "loadDrive reply st = (st1, es)"
    by (cases "loadDrive reply st")
  have dep: "deployment st1 = deployment st"
    using loadDrive_deployment [of reply st] l by simp
  have get: "Request r \<in> set es \<Longrightarrow> verb r = GET"
    using loadDrive_requests [of r reply st] l by simp
  show ?thesis
    using Some l dep get by (cases ok) (auto simp: prepareDrive_def)
qed

lemma downloadDrive_effects:
  "deployment (fst (downloadDrive ok st)) = deployment st
   \<and> (Request r \<in> set (snd (downloadDrive ok st)) \<longrightarrow> verb r = GET)"
  by (cases "drive st"; cases ok)
     (auto simp: downloadDrive_def drives_download_def api_get_def)

lemma getCurrentLocation_effects:
  "coordinate_ok (latitude (deployment st)) \<Longrightarrow> coordinate_ok (longitude (deployment st))
   \<Longrightarrow> coordinate_ok (latitude (deployment (fst (getCurrentLocation g st))))
     \<and> coordinate_ok (longitude (deployment (fst (getCurrentLocation g st))))
     \<and> (\<forall>r. Request r \<notin> set (snd (getCurrentLocation g st)))"
  by (cases g) (auto simp: getCurrentLocation_def coordinate_ok_def)

lemma handle_page_ok:
  assumes "coordinate_ok (latitude (deployment st))"
    and "coordinate_ok (longitude (deployment st))"
  shows "coordinate_ok (latitude (deployment (fst (handle e st))))
     \<and> coordinate_ok (longitude (deployment (fst (handle e st))))
     \<and> (\<forall>r. Request r \<in> set (snd (handle e st)) \<and> verb r = POST
           \<longrightarrow> (\<exists>did. r = drives_prepare did) \<or> deploy_shaped r)"
proof (cases e)
  case (ClickPrepare ok reply)
  then show ?thesis using assms prepareDrive_effects [of ok reply st] by auto
next
  case (ClickDownload ok)
  then show ?thesis using assms downloadDrive_effects [of ok st] by auto
next
  case ClickRecordDeployment
  then show ?thesis using assms by simp
next
  case (InputLatitude v)
  then show ?thesis using assms looseToNumber_cases [of v]
    by (auto simp: coordinate_ok_def)
next
  case (InputLongitude v)
  then show ?thesis using assms looseToNumber_cases [of v]
    by (auto simp: coordinate_ok_def)
next
  case (InputDescription s)
  then show ?thesis using assms by simp
next
  case (InputDeployedBy s)
  then show ?thesis using assms by simp
next
  case (ClickUseCurrentLocation g)
  then show ?thesis
    using assms getCurrentLocation_effects [of st g] by simp
next
  case (SubmitDeployForm ok reply)
  then show ?thesis
    using assms deployDrive_deployment [of ok reply st]
      deployDrive_shaped [OF assms, of _ ok reply]
    by auto
next
  case ClickCancel
  then show ?thesis using assms by simp
qed

lemma ui_step_page_ok: "page_ok acc \<Longrightarrow> page_ok (ui_step acc e)"
proof -
  assume ok: "page_ok acc"
  obtain st past where acc: "acc = (st, past)" by (cases acc)
  obtain st1 es where h: "handle e st = (st1, es)" by (cases "handle e st")
  from ok acc have c: "coordinate_ok (latitude (deployment st))"
      "coordinate_ok (longitude (deployment st))"
    by (simp_all add: page_ok_def)
  from handle_page_ok [OF c, of e] h
  have "coordinate_ok (latitude (deployment st1))" "coordinate_ok (longitude (deployment st1))"
    "\<forall>r. Request r \<in> set es \<and> verb r = POST
        \<longrightarrow> (\<exists>did. r = drives_prepare did) \<or> deploy_shaped r"
    by simp_all
  with ok acc h show ?thesis
    by (auto simp: ui_step_def page_ok_def)
qed

lemma onMounted_page_ok: "page_ok (onMounted reply (script_setup rid action))"
proof -
  obtain st1 es where l: "loadDrive reply (script_setup rid action) = (st1, es)"
    by (cases "loadDrive reply (script_setup rid action)")
  have dep: "deployment st1 = initial_deployment"
    using loadDrive_deployment [of reply "script_setup rid action"] l
    by (simp add: script_setup_def)
  have get: "Request r \<in> set es \<Longrightarrow> verb r = GET" for r
    using loadDrive_requests [of r reply "script_setup rid action"] l by simp
  show ?thesis
    using l dep get
    by (auto simp: onMounted_def page_ok_def coordinate_ok_def initial_deployment_def)
qed

lemma session_page_ok: "page_ok (session rid action reply evs)"
proof -
  have "page_ok acc \<Longrightarrow> page_ok (foldl ui_step acc evs)" for acc
    by (induction evs arbitrary: acc) (simp_all add: ui_step_page_ok)
  then show ?thesis
    unfolding session_def using onMounted_page_ok by blast
qed

text \<open>
  C5. Every request with a body that a session on the drive page posts is
  \<^verbatim>\<open>POST /drives/{id}/deploy\<close> with exactly the fields
  \<^verbatim>\<open>latitude\<close>, \<^verbatim>\<open>longitude\<close>, \<^verbatim>\<open>location_description\<close> and
  \<^verbatim>\<open>deployed_by\<close>, the two coordinates being numbers; and the request
  \<^verbatim>\<open>deployDrive\<close> posts is the one \<^verbatim>\<open>drivesApi.deploy\<close> builds from the
  loaded drive's id and the form object.
\<close>

theorem deploy_request_shape:
  "(Request r \<in> set (snd (session rid action reply evs)) \<and> verb r = POST \<and> data r \<noteq> None
      \<longrightarrow> (\<exists>did la lo s t.
             r = \<lparr>verb = POST, url = ''/drives/'' @ did @ ''/deploy'', params = [],
                  data = Some [(''latitude'', JNum (Finite la)),
                               (''longitude'', JNum (Finite lo)),
                               (''location_description'', JStr s),
                               (''deployed_by'', JStr t)]\<rparr>))
   \<and> (Request r \<in> set (snd (deployDrive ok reply' st)) \<and> verb r = POST
      \<longrightarrow> (\<exists>d. drive st = Some d
             \<and> r = \<lparr>verb = POST, url = ''/drives/'' @ d_id d @ ''/deploy'', params = [],
                    data = Some [(''latitude'', latitude (deployment st)),
                                 (''longitude'', longitude (deployment st)),
                                 (''location_description'', JStr (location_description (deployment st))),
                                 (''deployed_by'', JStr (deployed_by (deployment st)))]\<rparr>))"
proof (intro conjI impI)
  assume a: "Request r \<in> set (snd (session rid action reply evs)) \<and> verb r = POST \<and> data r \<noteq> None"
  from session_page_ok [of rid action reply evs] a
  have "(\<exists>did. r = drives_prepare did) \<or> deploy_shaped r"
    by (simp add: page_ok_def)
  moreover have "\<not> (\<exists>did. r = drives_prepare did)"
    using a by (auto simp: drives_prepare_def api_post_def)
  ultimately show "\<exists>did la lo s t.
             r = \<lparr>verb = POST, url = ''/drives/'' @ did @ ''/deploy'', params = [],
                  data = Some [(''latitude'', JNum (Finite la)),
                               (''longitude'', JNum (Finite lo)),
                               (''location_description'', JStr s),
                               (''deployed_by'', JStr t)]\<rparr>"
    by (simp add: deploy_shaped_def)
next
  assume a: "Request r \<in> set (snd (deployDrive ok reply' st)) \<and> verb r = POST"
  then have "\<exists>d. drive st = Some d
      \<and> r = drives_deploy (d_id d) (deployment_json (deployment st))"
    using deployDrive_requests [of r ok reply' st] by blast
  then show "\<exists>d. drive st = Some d
             \<and> r = \<lparr>verb = POST, url = ''/drives/'' @ d_id d @ ''/deploy'', params = [],
                    data = Some [(''latitude'', latitude (deployment st)),
                                 (''longitude'', longitude (deployment st)),
                                 (''location_description'', JStr (location_description (deployment st))),
                                 (''deployed_by'', JStr (deployed_by (deployment st)))]\<rparr>"
    by (simp add: drives_deploy_def api_post_def deployment_json_def)
qed

lemma example_session:
  "session ''42'' JNull
     (Some (\<lparr>d_id = ''42'', d_status = ''prepared'', unique_code = ''USB-A1B2''\<rparr>, []))
     [ClickRecordDeployment, InputLatitude (Typed 37.7749), InputLongitude (Typed (-122.4194)),
      InputDescription ''Building A lobby'', InputDeployedBy ''John Smith'',
      SubmitDeployForm False None]
   = (\<lparr>route_id = ''42'', route_action = JNull,
       drive = Some \<lparr>d_id = ''42'', d_status = ''prepared'', unique_code = ''USB-A1B2''\<rparr>,
       tokens = [], loading = False, showDeployModal = True, deploying = False,
       gettingLocation = False,
       deployment = \<lparr>latitude = JNum (Finite 37.7749), longitude = JNum (Finite (-122.4194)),
                      location_description = ''Building A lobby'',
                      deployed_by = ''John Smith''\<rparr>\<rparr>,
      [Request (drives_get ''42''), Request (drives_tokens ''42''),
       Request (drives_deploy ''42''
         [(''latitude'', JNum (Finite 37.7749)), (''longitude'', JNum (Finite (-122.4194))),
          (''location_description'', JStr ''Building A lobby''),
          (''deployed_by'', JStr ''John Smith'')]),
       Throw ''rejected''])"
  by (simp add: session_def onMounted_def script_setup_def loadDrive_def ui_step_def
      rendered_def deployDrive_def initial_deployment_def deployment_json_def)

theorem deploy_request_shape_witness:
  "Request (drives_deploy ''42''
       [(''latitude'', JNum (Finite 37.7749)), (''longitude'', JNum (Finite (-122.4194))),
        (''location_description'', JStr ''Building A lobby''),
        (''deployed_by'', JStr ''John Smith'')])
     \<in> set (snd (session ''42'' JNull
          (Some (\<lparr>d_id = ''42'', d_status = ''prepared'', unique_code = ''USB-A1B2''\<rparr>, []))
          [ClickRecordDeployment, InputLatitude (Typed 37.7749),
           InputLongitude (Typed (-122.4194)), InputDescription ''Building A lobby'',
           InputDeployedBy ''John Smith'', SubmitDeployForm False None]))
   \<and> verb (drives_deploy ''42''
       [(''latitude'', JNum (Finite 37.7749)), (''longitude'', JNum (Finite (-122.4194))),
        (''location_description'', JStr ''Building A lobby''),
        (''deployed_by'', JStr ''John Smith'')]) = POST
   \<and> data (drives_deploy ''42''
       [(''latitude'', JNum (Finite 37.7749)), (''longitude'', JNum (Finite (-122.4194))),
        (''location_description'', JStr ''Building A lobby''),
        (''deployed_by'', JStr ''John Smith'')]) \<noteq> None
   \<and> (\<exists>did la lo s t.
         drives_deploy ''42''
           [(''latitude'', JNum (Finite 37.7749)), (''longitude'', JNum (Finite (-122.4194))),
            (''location_description'', JStr ''Building A lobby''),
            (''deployed_by'', JStr ''John Smith'')]
         = \<lparr>verb = POST, url = ''/drives/'' @ did @ ''/deploy'', params = [],
            data = Some [(''latitude'', JNum (Finite la)), (''longitude'', JNum (Finite lo)),
                         (''location_description'', JStr s), (''deployed_by'', JStr t)]\<rparr>)
   \<and> Request (drives_deploy ''42''
       [(''latitude'', JNum (Finite 37.7749)), (''longitude'', JNum (Finite (-122.4194))),
        (''location_description'', JStr ''Building A lobby''),
        (''deployed_by'', JStr ''John Smith'')])
     \<in> set (snd (deployDrive False None
          (fst (session ''42'' JNull
            (Some (\<lparr>d_id = ''42'', d_status = ''prepared'', unique_code = ''USB-A1B2''\<rparr>, []))
            [ClickRecordDeployment, InputLatitude (Typed 37.7749),
             InputLongitude (Typed (-122.4194)), InputDescription ''Building A lobby'',
             InputDeployedBy ''John Smith'', SubmitDeployForm False None]))))"
proof -
  let ?r = "drives_deploy ''42''
       [(''latitude'', JNum (Finite 37.7749)), (''longitude'', JNum (Finite (-122.4194))),
        (''location_description'', JStr ''Building A lobby''),
        (''deployed_by'', JStr ''John Smith'')]"
  let ?evs = "[ClickRecordDeployment, InputLatitude (Typed 37.7749),
           InputLongitude (Typed (-122.4194)), InputDescription ''Building A lobby'',
           InputDeployedBy ''John Smith'', SubmitDeployForm False None]"
  let ?reply = "Some (\<lparr>d_id = ''42'', d_status = ''prepared'', unique_code = ''USB-A1B2''\<rparr>, [])"
  have mem: "Request ?r \<in> set (snd (session ''42'' JNull ?reply ?evs))"
    unfolding example_session by simp
  have post: "verb ?r = POST \<and> data ?r \<noteq> None"
    by (simp add: drives_deploy_def api_post_def)
  have mem2: "Request ?r \<in> set (snd (deployDrive False None
      (fst (session ''42'' JNull ?reply ?evs))))"
    unfolding example_session by (simp add: deployDrive_def deployment_json_def)
  from deploy_request_shape [of ?r "''42''" JNull ?reply ?evs False None
      "fst (session ''42'' JNull ?reply ?evs)"] mem post
  have "\<exists>did la lo s t. ?r
         = \<lparr>verb = POST, url = ''/drives/'' @ did @ ''/deploy'', params = [],
            data = Some [(''latitude'', JNum (Finite la)), (''longitude'', JNum (Finite lo)),
                         (''location_description'', JStr s), (''deployed_by'', JStr t)]\<rparr>"
    by blast
  with mem post mem2 show ?thesis by blast
qed

section \<open>The coordinate guard of the deploy form\<close>

text \<open>
  C1. The claim is that \<^verbatim>\<open>deployDrive\<close> posts exactly when both coordinates are
  non-null. On the equator the form holds the number 0 as latitude: both coordinates are
  non-null, the drive is loaded, and \<^verbatim>\<open>deployDrive\<close> shows
  \<^verbatim>\<open>Please provide location coordinates\<close> and sends nothing, because the guard
  \<^verbatim>\<open>!deployment.value.latitude\<close> tests truthiness and 0 is falsy.
\<close>

theorem deployDrive_rejects_zero_latitude:
  "non_null (JNum (Finite 0)) \<and> non_null (JNum (Finite 32.5825))
   \<and> session ''42'' JNull
        (Some (\<lparr>d_id = ''42'', d_status = ''prepared'', unique_code = ''USB-A1B2''\<rparr>, []))
        [ClickRecordDeployment, InputLatitude (Typed 0), InputLongitude (Typed 32.5825),
         InputDescription ''Equator marker'', InputDeployedBy ''John Smith'',
         SubmitDeployForm True
           (Some (\<lparr>d_id = ''42'', d_status = ''deployed'', unique_code = ''USB-A1B2''\<rparr>, []))]
     = (\<lparr>route_id = ''42'', route_action = JNull,
         drive = Some \<lparr>d_id = ''42'', d_status = ''prepared'', unique_code = ''USB-A1B2''\<rparr>,
         tokens = [], loading = False, showDeployModal = True, deploying = False,
         gettingLocation = False,
         deployment = \<lparr>latitude = JNum (Finite 0), longitude = JNum (Finite 32.5825),
                        location_description = ''Equator marker'',
                        deployed_by = ''John Smith''\<rparr>\<rparr>,
        [Request (drives_get ''42''), Request (drives_tokens ''42''),
         Alert ''Please provide location coordinates''])"
  by (simp add: non_null_def session_def onMounted_def script_setup_def loadDrive_def
      ui_step_def rendered_def deployDrive_def initial_deployment_def)

section \<open>Which actions a drive's status admits\<close>

lemma detail_buttons:
  "(PrepareButton \<in> set (rendered st)
      \<longleftrightarrow> \<not> loading st \<and> (\<exists>d. drive st = Some d \<and> d_status d = ''created''))
   \<and> (DownloadButton \<in> set (rendered st)
      \<longleftrightarrow> \<not> loading st \<and> (\<exists>d. drive st = Some d \<and> d_status d = ''prepared''))
   \<and> (RecordDeploymentButton \<in> set (rendered st)
      \<longleftrightarrow> \<not> loading st \<and> (\<exists>d. drive st = Some d \<and> d_status d = ''prepared''))
   \<and> (DeployForm \<in> set (rendered st) \<longleftrightarrow> showDeployModal st)"
  by (cases "drive st") (auto simp: rendered_def)

lemma list_buttons:
  "(RowPrepare \<in> set (row_actions d) \<longleftrightarrow> d_status d = ''created'')
   \<and> (RowDownload \<in> set (row_actions d) \<longleftrightarrow> d_status d = ''prepared'')
   \<and> (RowDeployLink l \<in> set (row_actions d)
        \<longleftrightarrow> d_status d = ''prepared'' \<and> l = ''/drives/'' @ d_id d @ ''?action=deploy'')"
  by (auto simp: row_actions_def)

text \<open>
  C2. The claim is that the deploy action is offered and invoked only for a drive whose
  status is \<^verbatim>\<open>prepared\<close>. The detail page opened with
  \<^verbatim>\<open>?action=deploy\<close> for a drive that is already \<^verbatim>\<open>triggered\<close>: the
  three buttons are absent, as the claim says, but \<^verbatim>\<open>onMounted\<close> has opened the
  deploy form without looking at the status, and submitting it posts the deployment.
\<close>

theorem deploy_form_ignores_status:
  "rendered (fst (onMounted
       (Some (\<lparr>d_id = ''42'', d_status = ''triggered'', unique_code = ''USB-A1B2''\<rparr>, []))
       (script_setup ''42'' (JStr ''deploy'')))) = [DeployForm]
   \<and> snd (session ''42'' (JStr ''deploy'')
        (Some (\<lparr>d_id = ''42'', d_status = ''triggered'', unique_code = ''USB-A1B2''\<rparr>, []))
        [InputLatitude (Typed 37.7749), InputLongitude (Typed (-122.4194)),
         SubmitDeployForm False None])
     = [Request (drives_get ''42''), Request (drives_tokens ''42''),
        Request \<lparr>verb = POST, url = ''/drives/42/deploy'', params = [],
          data = Some [(''latitude'', JNum (Finite 37.7749)),
                       (''longitude'', JNum (Finite (-122.4194))),
                       (''location_description'', JStr ''''), (''deployed_by'', JStr '''')]\<rparr>,
        Throw ''rejected'']"
  by (simp add: session_def onMounted_def script_setup_def loadDrive_def ui_step_def
      rendered_def deployDrive_def initial_deployment_def deployment_json_def
      drives_deploy_def api_post_def)

section \<open>Records with missing geolocation\<close>

lemma truthy_js_and: "truthy (js_and a b) \<longleftrightarrow> truthy a \<and> truthy b"
  by (simp add: js_and_def)

text \<open>The two layers of the map, one after the other.\<close>

lemma updateMarkers_layers:
  "\<exists>ds. fst (updateMarkers filter_type md)
       = map deployment_marker ds
         @ (if filter_type = ''triggers'' \<or> filter_type = ''both''
            then (case triggers md of
                    None \<Rightarrow> []
                  | Some xs \<Rightarrow> map trigger_marker
                      [t \<leftarrow> xs. truthy (js_and (geo_latitude t) (geo_longitude t))])
            else [])"
proof (cases "filter_type = ''deployments'' \<or> filter_type = ''both''")
  case True
  show ?thesis
  proof (cases "deployments md")
    case None
    with True have "fst (updateMarkers filter_type md)
       = map deployment_marker []
         @ (if filter_type = ''triggers'' \<or> filter_type = ''both''
            then (case triggers md of
                    None \<Rightarrow> []
                  | Some xs \<Rightarrow> map trigger_marker
                      [t \<leftarrow> xs. truthy (js_and (geo_latitude t) (geo_longitude t))])
            else [])"
      by (simp add: updateMarkers_def Let_def truthy_js_and)
    then show ?thesis by blast
  next
    case (Some xs)
    with True have "fst (updateMarkers filter_type md)
       = map deployment_marker [d \<leftarrow> xs. truthy (js_and (m_latitude d) (m_longitude d))]
         @ (if filter_type = ''triggers'' \<or> filter_type = ''both''
            then (case triggers md of
                    None \<Rightarrow> []
                  | Some xs \<Rightarrow> map trigger_marker
                      [t \<leftarrow> xs. truthy (js_and (geo_latitude t) (geo_longitude t))])
            else [])"
      by (simp add: updateMarkers_def Let_def truthy_js_and)
    then show ?thesis by blast
  qed
next
  case False
  then have "fst (updateMarkers filter_type md)
       = map deployment_marker []
         @ (if filter_type = ''triggers'' \<or> filter_type = ''both''
            then (case triggers md of
                    None \<Rightarrow> []
                  | Some xs \<Rightarrow> map trigger_marker
                      [t \<leftarrow> xs. truthy (js_and (geo_latitude t) (geo_longitude t))])
            else [])"
    by (simp add: updateMarkers_def Let_def truthy_js_and)
  then show ?thesis by blast
qed

lemma marker_icons:
  "marker_icon (trigger_marker t) = triggerIcon"
  "marker_icon (deployment_marker d) = deploymentIcon"
  by (simp_all add: trigger_marker_def deployment_marker_def)

lemma trigger_markers_of:
  assumes "filter_type = ''triggers'' \<or> filter_type = ''both''" and "triggers md = Some ts"
  shows "m \<in> set (fst (updateMarkers filter_type md)) \<and> marker_icon m = triggerIcon
     \<longleftrightarrow> (\<exists>t \<in> set ts. truthy (geo_latitude t) \<and> truthy (geo_longitude t)
            \<and> m = trigger_marker t)"
proof -
  from updateMarkers_layers [of filter_type md] assms obtain ds where
    "fst (updateMarkers filter_type md)
       = map deployment_marker ds
         @ map trigger_marker [t \<leftarrow> ts. truthy (js_and (geo_latitude t) (geo_longitude t))]"
    by auto
  then show ?thesis
    by (auto simp: marker_icons truthy_js_and)
qed

lemma no_trigger_markers:
  assumes "filter_type \<noteq> ''triggers''" and "filter_type \<noteq> ''both''"
    and "m \<in> set (fst (updateMarkers filter_type md))"
  shows "marker_icon m = deploymentIcon"
proof -
  from updateMarkers_layers [of filter_type md] assms(1,2) obtain ds where
    "fst (updateMarkers filter_type md) = map deployment_marker ds"
    by auto
  with assms(3) show ?thesis
    by (auto simp: marker_icons)
qed

text \<open>
  C4, as the claim states it, fails: with the map's filter on
  \<^verbatim>\<open>deployments\<close> a trigger whose two coordinates are non-null gets no marker.
\<close>

theorem trigger_marker_counterexample:
  "non_null (JNum (Finite 37.7849)) \<and> non_null (JNum (Finite (-122.4094)))
   \<and> updateMarkers ''deployments''
        \<lparr>deployments = Some [],
         triggers = Some [\<lparr>t_drive_code = JStr ''USB-A1B2'', t_token_type = JStr ''word'',
           t_filename = JNull, geo_latitude = JNum (Finite 37.7849),
           geo_longitude = JNum (Finite (-122.4094)), geo_city = JStr ''San Francisco'',
           geo_country = JStr ''US'', t_source_ip = JNull,
           t_triggered_at = JStr ''2024-01-15T14:30:00Z''\<rparr>]\<rparr>
     = ([], None)"
  by (simp add: non_null_def updateMarkers_def)

text \<open>
  C4, amended. The alerts list renders one item per alert, whatever is null in it: the
  address line shows \<^verbatim>\<open>Unknown IP\<close> when \<^verbatim>\<open>source_ip\<close> is null and the
  location line is omitted when \<^verbatim>\<open>geo_city\<close> and \<^verbatim>\<open>geo_country\<close> are
  null. On the map, while the filter shows triggers (\<^verbatim>\<open>both\<close>, the initial
  value, or \<^verbatim>\<open>triggers\<close>), every trigger whose two coordinates are non-zero
  numbers has its marker and a trigger with a null coordinate has none; while the filter
  is \<^verbatim>\<open>deployments\<close> no trigger has a marker.
\<close>

theorem null_geo_read_paths:
  "length (render_alerts as) = length as
   \<and> (a_source_ip a = JNull \<longrightarrow> ip_line (render_alert a) = JStr ''Unknown IP'')
   \<and> (truthy (a_source_ip a) \<longrightarrow> ip_line (render_alert a) = a_source_ip a)
   \<and> (a_geo_city a = JNull \<and> a_geo_country a = JNull
        \<longrightarrow> location_line (render_alert a) = None)
   \<and> ((filter_type = ''triggers'' \<or> filter_type = ''both'') \<and> triggers md = Some ts
        \<and> t \<in> set ts
        \<longrightarrow> (geo_latitude t = JNum (Finite la) \<and> la \<noteq> 0
             \<and> geo_longitude t = JNum (Finite lo) \<and> lo \<noteq> 0
             \<longrightarrow> trigger_marker t \<in> set (fst (updateMarkers filter_type md)))
          \<and> (geo_latitude t = JNull \<or> geo_longitude t = JNull
             \<longrightarrow> trigger_marker t \<notin> set (fst (updateMarkers filter_type md))))
   \<and> (filter_type = ''deployments''
        \<longrightarrow> (\<forall>m \<in> set (fst (updateMarkers filter_type md)). marker_icon m \<noteq> triggerIcon))"
proof -
  have list: "length (render_alerts as) = length as"
    by (simp add: render_alerts_def)
  have ip: "(a_source_ip a = JNull \<longrightarrow> ip_line (render_alert a) = JStr ''Unknown IP'')
      \<and> (truthy (a_source_ip a) \<longrightarrow> ip_line (render_alert a) = a_source_ip a)"
    by (simp add: render_alert_def js_or_def)
  have loc: "a_geo_city a = JNull \<and> a_geo_country a = JNull
        \<longrightarrow> location_line (render_alert a) = None"
    by (simp add: render_alert_def js_or_def)
  have shown: "trigger_marker t \<in> set (fst (updateMarkers filter_type md))"
    if "filter_type = ''triggers'' \<or> filter_type = ''both''" "triggers md = Some ts"
      "t \<in> set ts" "geo_latitude t = JNum (Finite la)" "la \<noteq> 0"
      "geo_longitude t = JNum (Finite lo)" "lo \<noteq> 0"
  proof -
    have "\<exists>t' \<in> set ts. truthy (geo_latitude t') \<and> truthy (geo_longitude t')
        \<and> trigger_marker t = trigger_marker t'"
      using that by (intro bexI [of _ t]) simp_all
    then show ?thesis
      using trigger_markers_of [OF that(1,2), of "trigger_marker t"] by blast
  qed
  have skipped: "trigger_marker t \<notin> set (fst (updateMarkers filter_type md))"
    if "filter_type = ''triggers'' \<or> filter_type = ''both''" "triggers md = Some ts"
      "geo_latitude t = JNull \<or> geo_longitude t = JNull"
  proof
    note prem = that
    assume "trigger_marker t \<in> set (fst (updateMarkers filter_type md))"
    then obtain t' where "truthy (geo_latitude t')" "truthy (geo_longitude t')"
      "trigger_marker t = trigger_marker t'"
      using trigger_markers_of [OF prem(1,2), of "trigger_marker t"]
      by (auto simp: marker_icons)
    then have "truthy (geo_latitude t)" "truthy (geo_longitude t)"
      by (simp_all add: trigger_marker_def)
    with prem(3) show False by auto
  qed
  have hidden: "\<forall>m \<in> set (fst (updateMarkers filter_type md)). marker_icon m \<noteq> triggerIcon"
    if "filter_type = ''deployments''"
    using that no_trigger_markers [of filter_type _ md] by fastforce
  show ?thesis
    using list ip loc shown skipped hidden by blast
qed

theorem null_geo_read_paths_witness:
  "ip_line (render_alert
       \<lparr>a_drive_id = JStr ''42'', a_drive_code = JStr ''USB-A1B2'', a_token_type = JStr ''dns'',
        a_token_filename = JNull, a_source_ip = JNull, a_geo_city = JNull,
        a_geo_country = JNull, a_user_agent = JNull,
        a_triggered_at = JStr ''2024-01-15T14:30:00Z''\<rparr>) = JStr ''Unknown IP''
   \<and> location_line (render_alert
       \<lparr>a_drive_id = JStr ''42'', a_drive_code = JStr ''USB-A1B2'', a_token_type = JStr ''dns'',
        a_token_filename = JNull, a_source_ip = JNull, a_geo_city = JNull,
        a_geo_country = JNull, a_user_agent = JNull,
        a_triggered_at = JStr ''2024-01-15T14:30:00Z''\<rparr>) = None
   \<and> ip_line (render_alert
       \<lparr>a_drive_id = JStr ''42'', a_drive_code = JStr ''USB-A1B2'', a_token_type = JStr ''dns'',
        a_token_filename = JNull, a_source_ip = JStr ''192.168.1.100'', a_geo_city = JNull,
        a_geo_country = JNull, a_user_agent = JNull,
        a_triggered_at = JStr ''2024-01-15T14:30:00Z''\<rparr>) = JStr ''192.168.1.100''
   \<and> trigger_marker
        \<lparr>t_drive_code = JStr ''USB-A1B2'', t_token_type = JStr ''word'', t_filename = JNull,
         geo_latitude = JNum (Finite 37.7849), geo_longitude = JNum (Finite (-122.4094)),
         geo_city = JStr ''San Francisco'', geo_country = JStr ''US'', t_source_ip = JNull,
         t_triggered_at = JStr ''2024-01-15T14:30:00Z''\<rparr>
      \<in> set (fst (updateMarkers ''both''
          \<lparr>deployments = None,
           triggers = Some
            [\<lparr>t_drive_code = JStr ''USB-A1B2'', t_token_type = JStr ''word'', t_filename = JNull,
              geo_latitude = JNum (Finite 37.7849), geo_longitude = JNum (Finite (-122.4094)),
              geo_city = JStr ''San Francisco'', geo_country = JStr ''US'', t_source_ip = JNull,
              t_triggered_at = JStr ''2024-01-15T14:30:00Z''\<rparr>,
             \<lparr>t_drive_code = JStr ''USB-C3D4'', t_token_type = JStr ''dns'', t_filename = JNull,
              geo_latitude = JNull, geo_longitude = JNull,
              geo_city = JNull, geo_country = JNull, t_source_ip = JNull,
              t_triggered_at = JStr ''2024-01-16T09:00:00Z''\<rparr>]\<rparr>))
   \<and> trigger_marker
        \<lparr>t_drive_code = JStr ''USB-C3D4'', t_token_type = JStr ''dns'', t_filename = JNull,
         geo_latitude = JNull, geo_longitude = JNull,
         geo_city = JNull, geo_country = JNull, t_source_ip = JNull,
         t_triggered_at = JStr ''2024-01-16T09:00:00Z''\<rparr>
      \<notin> set (fst (updateMarkers ''both''
          \<lparr>deployments = None,
           triggers = Some
            [\<lparr>t_drive_code = JStr ''USB-A1B2'', t_token_type = JStr ''word'', t_filename = JNull,
              geo_latitude = JNum (Finite 37.7849), geo_longitude = JNum (Finite (-122.4094)),
              geo_city = JStr ''San Francisco'', geo_country = JStr ''US'', t_source_ip = JNull,
              t_triggered_at = JStr ''2024-01-15T14:30:00Z''\<rparr>,
             \<lparr>t_drive_code = JStr ''USB-C3D4'', t_token_type = JStr ''dns'', t_filename = JNull,
              geo_latitude = JNull, geo_longitude = JNull,
              geo_city = JNull, geo_country = JNull, t_source_ip = JNull,
              t_triggered_at = JStr ''2024-01-16T09:00:00Z''\<rparr>]\<rparr>))
   \<and> triggerIcon \<notin> marker_icon ` set (fst (updateMarkers ''deployments''
          \<lparr>deployments = None,
           triggers = Some
            [\<lparr>t_drive_code = JStr ''USB-A1B2'', t_token_type = JStr ''word'', t_filename = JNull,
              geo_latitude = JNum (Finite 37.7849), geo_longitude = JNum (Finite (-122.4094)),
              geo_city = JStr ''San Francisco'', geo_country = JStr ''US'', t_source_ip = JNull,
              t_triggered_at = JStr ''2024-01-15T14:30:00Z''\<rparr>,
             \<lparr>t_drive_code = JStr ''USB-C3D4'', t_token_type = JStr ''dns'', t_filename = JNull,
              geo_latitude = JNull, geo_longitude = JNull,
              geo_city = JNull, geo_country = JNull, t_source_ip = JNull,
              t_triggered_at = JStr ''2024-01-16T09:00:00Z''\<rparr>]\<rparr>))"
proof -
  let ?hidden = "\<lparr>a_drive_id = JStr ''42'', a_drive_code = JStr ''USB-A1B2'', a_token_type = JStr ''dns'',
        a_token_filename = JNull, a_source_ip = JNull, a_geo_city = JNull,
        a_geo_country = JNull, a_user_agent = JNull,
        a_triggered_at = JStr ''2024-01-15T14:30:00Z''\<rparr>"
  let ?known = "\<lparr>a_drive_id = JStr ''42'', a_drive_code = JStr ''USB-A1B2'', a_token_type = JStr ''dns'',
        a_token_filename = JNull, a_source_ip = JStr ''192.168.1.100'', a_geo_city = JNull,
        a_geo_country = JNull, a_user_agent = JNull,
        a_triggered_at = JStr ''2024-01-15T14:30:00Z''\<rparr>"
  let ?located = "\<lparr>t_drive_code = JStr ''USB-A1B2'', t_token_type = JStr ''word'', t_filename = JNull,
         geo_latitude = JNum (Finite 37.7849), geo_longitude = JNum (Finite (-122.4094)),
         geo_city = JStr ''San Francisco'', geo_country = JStr ''US'', t_source_ip = JNull,
         t_triggered_at = JStr ''2024-01-15T14:30:00Z''\<rparr>"
  let ?unlocated = "\<lparr>t_drive_code = JStr ''USB-C3D4'', t_token_type = JStr ''dns'', t_filename = JNull,
         geo_latitude = JNull, geo_longitude = JNull,
         geo_city = JNull, geo_country = JNull, t_source_ip = JNull,
         t_triggered_at = JStr ''2024-01-16T09:00:00Z''\<rparr>"
  let ?md = "\<lparr>deployments = None, triggers = Some [?located, ?unlocated]\<rparr>"
  have nz: "(37.7849::rat) \<noteq> 0" "(-122.4094::rat) \<noteq> 0"
    by simp_all
  from null_geo_read_paths [of "[]" ?hidden "''both''" ?md "[?located, ?unlocated]" ?located "37.7849" "-122.4094"]
  have one: "ip_line (render_alert ?hidden) = JStr ''Unknown IP''"
    "location_line (render_alert ?hidden) = None"
    "trigger_marker ?located \<in> set (fst (updateMarkers ''both'' ?md))"
    using nz by simp_all
  from null_geo_read_paths [of "[]" ?known "''both''" ?md "[?located, ?unlocated]" ?unlocated 0 0]
  have two: "ip_line (render_alert ?known) = JStr ''192.168.1.100''"
    "trigger_marker ?unlocated \<notin> set (fst (updateMarkers ''both'' ?md))"
    by simp_all
  from null_geo_read_paths [of "[]" ?known "''deployments''" ?md "[?located, ?unlocated]" ?unlocated 0 0]
  have three: "triggerIcon \<notin> marker_icon ` set (fst (updateMarkers ''deployments'' ?md))"
    by auto
  from one two three show ?thesis by blast
qed

section \<open>The success rate\<close>

lemma floor_rat_numeral_div [simp]:
  "\<lfloor>(numeral a :: rat) / numeral b\<rfloor> = numeral a div numeral b"
  by (metis floor_divide_of_int_eq of_int_numeral)

lemma ceiling_rat_numeral_div [simp]:
  "\<lceil>(numeral a :: rat) / numeral b\<rceil> = - (- numeral a div numeral b)"
  by (metis ceiling_def floor_divide_of_int_eq of_int_numeral of_int_minus minus_divide_left)

text \<open>The two roundings of \<^verbatim>\<open>(23 / 40) * 100\<close>: the quotient is the double just
  below 0.575, and its product with 100 is the double just below 57.5.\<close>

lemma binade_23_40: "binade (23 / 40) = - 1"
  by (simp add: binade_def)

lemma fl_23_40: "fl (23 / 40) = Finite (2589569785738035 / 4503599627370496)"
  by (simp add: fl_def binade_23_40 pow2_def Let_def round_half_even_def)

lemma binade_product: "binade (64739244643450875 / 1125899906842624) = 5"
  by (simp add: binade_def)

lemma fl_product:
  "fl (64739244643450875 / 1125899906842624) = Finite (8092405580431359 / 140737488355328)"
  by (simp add: fl_def binade_product pow2_def Let_def round_half_even_def)

lemma success_rate_23_40:
  "success_rate string_to_number
     (Some \<lparr>deployed = JNum (Finite 40), triggered = JNum (Finite 23)\<rparr>)
   = (Finite 57, [(Finite 23, Finite 40)])"
  by (simp add: success_rate_def fl_23_40 fl_product)

text \<open>The same counts in the order the claim writes them, \<^verbatim>\<open>100 * 23 / 40\<close>:
  both operations are exact and the tie 57.5 goes up.\<close>

lemma binade_2300: "binade 2300 = 11"
  by (simp add: binade_def)

lemma fl_2300: "fl 2300 = Finite 2300"
  by (simp add: fl_def binade_2300 pow2_def Let_def round_half_even_def)

lemma binade_115_2: "binade (115 / 2) = 5"
  by (simp add: binade_def)

lemma fl_115_2: "fl (115 / 2) = Finite (115 / 2)"
  by (simp add: fl_def binade_115_2 pow2_def Let_def round_half_even_def)

lemma claimed_rate_23_40:
  "Math_round (js_div (js_mul (Finite 100) (Finite 23)) (Finite 40)) = Finite 58"
  by (simp add: fl_2300 fl_115_2)

lemma truthy_divisor:
  "truthy v \<Longrightarrow> \<not> is_string v
   \<Longrightarrow> ToNumber string_to_number v \<noteq> Finite 0 \<and> ToNumber string_to_number v \<noteq> NaN"
proof (cases v)
  case (JNum n)
  assume "truthy v"
  with JNum show ?thesis by (cases n) simp_all
qed simp_all

text \<open>
  C10, as the claim states it, fails: with 23 of 40 deployed drives triggered the card
  shows 57, while \<open>round (100 \<cdot> 23 / 40)\<close> is 58, whether it is read as a real number
  or as the JavaScript expression \<^verbatim>\<open>Math.round(100 * 23 / 40)\<close>.
\<close>

theorem success_rate_counterexample:
  "fst (success_rate unparsed
          (Some \<lparr>deployed = JNum (Finite 40), triggered = JNum (Finite 23)\<rparr>)) = Finite 57
   \<and> \<lfloor>(100 * 23 / 40 :: rat) + 1 / 2\<rfloor> = 58
   \<and> Math_round (js_div (js_mul (Finite 100) (Finite 23)) (Finite 40)) = Finite 58"
  by (simp add: success_rate_23_40 claimed_rate_23_40 del: js_div.simps js_mul.simps)

text \<open>
  C10, amended. The card shows 0 when there is no statistics object or its deployed
  count is zero, null or undefined, and then no division is evaluated. When the
  deployed count is a non-zero number and the triggered count a number, the card shows
  \<^verbatim>\<open>Math.round\<close> of the binary64 product of the binary64 quotient
  \<^verbatim>\<open>triggered / deployed\<close> with 100, and the one division evaluated has that
  non-zero divisor. Whatever the counts are, as long as the deployed count is not a
  string, no division with a zero divisor is evaluated. The report view computes the
  same over its report object.
\<close>

theorem success_rate_guarded:
  "((st = None \<or> st = Some s \<and> deployed s \<in> {JNum (Finite 0), JNull, JUndefined})
      \<longrightarrow> success_rate string_to_number st = (Finite 0, []))
   \<and> (st = Some s \<and> deployed s = JNum (Finite d) \<and> d \<noteq> 0 \<and> triggered s = JNum (Finite t)
      \<longrightarrow> success_rate string_to_number st
            = (Math_round (js_mul (fl (t / d)) (Finite 100)), [(Finite t, Finite d)]))
   \<and> (\<not> (\<exists>s. st = Some s \<and> is_string (deployed s))
      \<longrightarrow> (\<forall>nd \<in> set (snd (success_rate string_to_number st)). snd nd \<noteq> Finite 0))
   \<and> report_success_rate string_to_number s = success_rate string_to_number (Some s)"
proof -
  have zero: "success_rate string_to_number st = (Finite 0, [])"
    if "st = None \<or> st = Some s \<and> deployed s \<in> {JNum (Finite 0), JNull, JUndefined}"
    using that by (auto simp: success_rate_def)
  have rate: "success_rate string_to_number st
            = (Math_round (js_mul (fl (t / d)) (Finite 100)), [(Finite t, Finite d)])"
    if "st = Some s \<and> deployed s = JNum (Finite d) \<and> d \<noteq> 0 \<and> triggered s = JNum (Finite t)"
    using that by (simp add: success_rate_def)
  have safe: "\<forall>nd \<in> set (snd (success_rate string_to_number st)). snd nd \<noteq> Finite 0"
    if "\<not> (\<exists>s. st = Some s \<and> is_string (deployed s))"
  proof (cases st)
    case None
    then show ?thesis by (simp add: success_rate_def)
  next
    case (Some s')
    with that have "\<not> is_string (deployed s')" by simp
    then show ?thesis
      using Some truthy_divisor [of "deployed s'" string_to_number]
      by (simp add: success_rate_def Let_def)
  qed
  show ?thesis
    using zero rate safe by (simp add: report_success_rate_def)
qed

lemma binade_3_8: "binade (3 / 8) = - 2"
  by (simp add: binade_def)

lemma fl_3_8: "fl (3 / 8) = Finite (3 / 8)"
  by (simp add: fl_def binade_3_8 pow2_def Let_def round_half_even_def)

lemma binade_75_2: "binade (75 / 2) = 5"
  by (simp add: binade_def)

lemma fl_75_2: "fl (75 / 2) = Finite (75 / 2)"
  by (simp add: fl_def binade_75_2 pow2_def Let_def round_half_even_def)

theorem success_rate_guarded_witness:
  "success_rate unparsed None = (Finite 0, [])
   \<and> success_rate unparsed (Some \<lparr>deployed = JNull, triggered = JNum (Finite 3)\<rparr>)
       = (Finite 0, [])
   \<and> success_rate unparsed (Some \<lparr>deployed = JNum (Finite 8), triggered = JNum (Finite 3)\<rparr>)
       = (Finite 38, [(Finite 3, Finite 8)])
   \<and> Finite 0 \<notin> snd ` set (snd (success_rate unparsed
         (Some \<lparr>deployed = JNum (Finite 8), triggered = JNum (Finite 3)\<rparr>)))"
proof -
  let ?n = "Some \<lparr>deployed = JNull, triggered = JNum (Finite 3)\<rparr>"
  let ?s = "Some \<lparr>deployed = JNum (Finite 8), triggered = JNum (Finite 3)\<rparr>"
  from success_rate_guarded [where st = None
      and s = "\<lparr>deployed = JNull, triggered = JNum (Finite 3)\<rparr>"
      and string_to_number = unparsed]
  have a: "success_rate unparsed None = (Finite 0, [])"
    by simp
  from success_rate_guarded [where st = ?n
      and s = "\<lparr>deployed = JNull, triggered = JNum (Finite 3)\<rparr>"
      and string_to_number = unparsed]
  have b: "success_rate unparsed ?n = (Finite 0, [])"
    by simp
  from success_rate_guarded [where st = ?s
      and s = "\<lparr>deployed = JNum (Finite 8), triggered = JNum (Finite 3)\<rparr>"
      and d = 8 and t = 3 and string_to_number = unparsed]
  have c: "success_rate unparsed ?s
        = (Math_round (js_mul (fl (3 / 8)) (Finite 100)), [(Finite 3, Finite 8)])"
    and d: "\<forall>nd \<in> set (snd (success_rate unparsed ?s)). snd nd \<noteq> Finite 0"
    by simp_all
  from c have c': "success_rate unparsed ?s = (Finite 38, [(Finite 3, Finite 8)])"
    by (simp add: fl_3_8 fl_75_2)
  from d have d': "Finite 0 \<notin> snd ` set (snd (success_rate unparsed ?s))"
    by auto
  from a b c' d' show ?thesis by blast
qed

section \<open>Token refresh\<close>

lemma request_interceptor_retried [simp]:
  "retried (request_interceptor w cfg) = retried cfg"
  by (simp add: request_interceptor_def split: option.splits)

lemma on_rejected_final:
  "err_status err \<noteq> Some 401 \<or> retried (err_config err)
   \<Longrightarrow> on_rejected srv w err = (w, Rejected err)"
  by auto

text \<open>A config that is already marked is sent once and never replayed.\<close>

lemma api_call_retried:
  assumes "retried cfg"
  shows "fst (api_call srv w cfg) = w\<lparr>sent := sent w @ [request_interceptor w cfg]\<rparr>"
    and "snd (api_call srv w cfg)
       = (case api_reply srv (length (sent w)) (request_interceptor w cfg) of
            Status code \<Rightarrow>
              if 200 \<le> code \<and> code < 300 then Resolved code
              else Rejected \<lparr>err_config = request_interceptor w cfg, err_status = Some code\<rparr>
          | NoResponse \<Rightarrow>
              Rejected \<lparr>err_config = request_interceptor w cfg, err_status = None\<rparr>)"
proof -
  have r: "retried (request_interceptor w cfg)"
    using assms by simp
  have final: "on_rejected srv w' \<lparr>err_config = request_interceptor w cfg, err_status = s\<rparr>
      = (w', Rejected \<lparr>err_config = request_interceptor w cfg, err_status = s\<rparr>)" for w' s
    using r by (intro on_rejected_final) simp
  show "fst (api_call srv w cfg) = w\<lparr>sent := sent w @ [request_interceptor w cfg]\<rparr>"
    by (cases "api_reply srv (length (sent w)) (request_interceptor w cfg)")
       (simp_all add: Let_def final del: on_rejected.simps)
  show "snd (api_call srv w cfg)
       = (case api_reply srv (length (sent w)) (request_interceptor w cfg) of
            Status code \<Rightarrow>
              if 200 \<le> code \<and> code < 300 then Resolved code
              else Rejected \<lparr>err_config = request_interceptor w cfg, err_status = Some code\<rparr>
          | NoResponse \<Rightarrow>
              Rejected \<lparr>err_config = request_interceptor w cfg, err_status = None\<rparr>)"
    by (cases "api_reply srv (length (sent w)) (request_interceptor w cfg)")
       (simp_all add: Let_def final del: on_rejected.simps)
qed

lemma replay_header:
  "request_interceptor
     (w\<lparr>storage := (storage w)(''accessToken'' \<mapsto> a, ''refreshToken'' \<mapsto> r)\<rparr>)
     (cfg\<lparr>authorization := Some (''Bearer '' @ a)\<rparr>)
   = cfg\<lparr>authorization := Some (''Bearer '' @ a)\<rparr>"
  by (simp add: request_interceptor_def stored_def)

lemma on_rejected_sends_at_most_once:
  "length (sent (fst (on_rejected srv w err))) \<le> Suc (length (sent w))"
proof (cases "err_status err = Some 401 \<and> \<not> retried (err_config err)")
  case False
  then show ?thesis by auto
next
  case True
  show ?thesis
  proof (cases "stored w ''refreshToken''")
    case None
    with True show ?thesis by (simp add: Let_def)
  next
    case (Some rt)
    show ?thesis
    proof (cases "refresh_reply srv (length (refreshes w)) rt")
      case RefreshFailed
      with True Some show ?thesis by (simp add: Let_def)
    next
      case (Tokens a r)
      have "retried ((err_config err)\<lparr>retried := True, authorization := Some (''Bearer '' @ a)\<rparr>)"
        by simp
      from api_call_retried(1) [OF this]
      show ?thesis
        using True Some Tokens by (simp add: Let_def del: api_call.simps)
    qed
  qed
qed

text \<open>
  C8. A response with status 401 to a request that is not yet marked as retried: if a
  refresh token is stored and the refresh call returns new tokens, they are stored and
  the original request is replayed exactly once, marked and with the new access token
  in its header, the replay's outcome being the handler's; if the refresh call fails,
  both stored tokens are removed, the browser is sent to \<^verbatim>\<open>/login\<close> and the
  error is rejected without a replay. A 401 on a request already marked, or with no
  stored refresh token, is rejected with nothing sent, nothing stored and no refresh
  call. In every case the handler sends at most one request.
\<close>

theorem refresh_replays_at_most_once:
  "(err_status err = Some 401 \<and> \<not> retried (err_config err)
     \<and> stored w ''refreshToken'' = Some rt
     \<and> refresh_reply srv (length (refreshes w)) rt = Tokens a r
     \<longrightarrow> fst (on_rejected srv w err)
           = w\<lparr>refreshes := refreshes w @ [rt],
               storage := (storage w)(''accessToken'' \<mapsto> a, ''refreshToken'' \<mapsto> r),
               sent := sent w @ [(err_config err)\<lparr>retried := True,
                                    authorization := Some (''Bearer '' @ a)\<rparr>]\<rparr>
         \<and> snd (on_rejected srv w err)
           = (case api_reply srv (length (sent w))
                     ((err_config err)\<lparr>retried := True,
                         authorization := Some (''Bearer '' @ a)\<rparr>) of
                Status code \<Rightarrow>
                  if 200 \<le> code \<and> code < 300 then Resolved code
                  else Rejected \<lparr>err_config = (err_config err)\<lparr>retried := True,
                                   authorization := Some (''Bearer '' @ a)\<rparr>,
                                 err_status = Some code\<rparr>
              | NoResponse \<Rightarrow>
                  Rejected \<lparr>err_config = (err_config err)\<lparr>retried := True,
                               authorization := Some (''Bearer '' @ a)\<rparr>,
                             err_status = None\<rparr>))
   \<and> (err_status err = Some 401 \<and> \<not> retried (err_config err)
     \<and> stored w ''refreshToken'' = Some rt
     \<and> refresh_reply srv (length (refreshes w)) rt = RefreshFailed
     \<longrightarrow> on_rejected srv w err
           = (w\<lparr>refreshes := refreshes w @ [rt],
                storage := (storage w)(''accessToken'' := None, ''refreshToken'' := None),
                location := ''/login''\<rparr>,
              Rejected (err\<lparr>err_config := (err_config err)\<lparr>retried := True\<rparr>\<rparr>)))
   \<and> (err_status err = Some 401 \<and> \<not> retried (err_config err)
     \<and> stored w ''refreshToken'' = None
     \<longrightarrow> on_rejected srv w err
           = (w, Rejected (err\<lparr>err_config := (err_config err)\<lparr>retried := True\<rparr>\<rparr>)))
   \<and> (err_status err = Some 401 \<and> retried (err_config err)
     \<longrightarrow> on_rejected srv w err = (w, Rejected err))
   \<and> length (sent (fst (on_rejected srv w err))) \<le> Suc (length (sent w))"
proof (intro conjI impI)
  assume h: "err_status err = Some 401 \<and> \<not> retried (err_config err)
     \<and> stored w ''refreshToken'' = Some rt
     \<and> refresh_reply srv (length (refreshes w)) rt = Tokens a r"
  let ?w = "w\<lparr>refreshes := refreshes w @ [rt],
               storage := (storage w)(''accessToken'' \<mapsto> a, ''refreshToken'' \<mapsto> r)\<rparr>"
  let ?cfg = "(err_config err)\<lparr>retried := True, authorization := Some (''Bearer '' @ a)\<rparr>"
  have step: "on_rejected srv w err = api_call srv ?w ?cfg"
    using h by (simp add: Let_def del: api_call.simps)
  have hdr: "request_interceptor ?w ?cfg = ?cfg"
    using replay_header [of "w\<lparr>refreshes := refreshes w @ [rt]\<rparr>" a r
        "(err_config err)\<lparr>retried := True\<rparr>"]
    by simp
  have marked: "retried ?cfg" by simp
  show "fst (on_rejected srv w err)
           = w\<lparr>refreshes := refreshes w @ [rt],
               storage := (storage w)(''accessToken'' \<mapsto> a, ''refreshToken'' \<mapsto> r),
               sent := sent w @ [?cfg]\<rparr>"
    unfolding step api_call_retried(1) [OF marked] hdr by simp
  show "snd (on_rejected srv w err)
           = (case api_reply srv (length (sent w)) ?cfg of
                Status code \<Rightarrow>
                  if 200 \<le> code \<and> code < 300 then Resolved code
                  else Rejected \<lparr>err_config = ?cfg, err_status = Some code\<rparr>
              | NoResponse \<Rightarrow> Rejected \<lparr>err_config = ?cfg, err_status = None\<rparr>)"
    unfolding step api_call_retried(2) [OF marked] hdr by simp
next
  assume "err_status err = Some 401 \<and> \<not> retried (err_config err)
     \<and> stored w ''refreshToken'' = Some rt
     \<and> refresh_reply srv (length (refreshes w)) rt = RefreshFailed"
  then show "on_rejected srv w err
           = (w\<lparr>refreshes := refreshes w @ [rt],
                storage := (storage w)(''accessToken'' := None, ''refreshToken'' := None),
                location := ''/login''\<rparr>,
              Rejected (err\<lparr>err_config := (err_config err)\<lparr>retried := True\<rparr>\<rparr>))"
    by (simp add: Let_def)
next
  assume "err_status err = Some 401 \<and> \<not> retried (err_config err)
     \<and> stored w ''refreshToken'' = None"
  then show "on_rejected srv w err
           = (w, Rejected (err\<lparr>err_config := (err_config err)\<lparr>retried := True\<rparr>\<rparr>))"
    by (simp add: Let_def)
next
  assume "err_status err = Some 401 \<and> retried (err_config err)"
  then show "on_rejected srv w err = (w, Rejected err)"
    by simp
next
  show "length (sent (fst (on_rejected srv w err))) \<le> Suc (length (sent w))"
    by (rule on_rejected_sends_at_most_once)
qed

theorem refresh_replays_at_most_once_witness:
  "sent (fst (on_rejected
       \<lparr>api_reply = (\<lambda>n c. Status 200), refresh_reply = (\<lambda>n t. Tokens ''new-a'' ''new-r'')\<rparr>
       \<lparr>storage = [''accessToken'' \<mapsto> ''old-a'', ''refreshToken'' \<mapsto> ''old-r''],
        location = ''/drives'',
        sent = [\<lparr>target = api_get ''/drives'' [], authorization = Some ''Bearer old-a'',
                 retried = False\<rparr>],
        refreshes = []\<rparr>
       \<lparr>err_config = \<lparr>target = api_get ''/drives'' [], authorization = Some ''Bearer old-a'',
                       retried = False\<rparr>,
        err_status = Some 401\<rparr>))
     = [\<lparr>target = api_get ''/drives'' [], authorization = Some ''Bearer old-a'',
         retried = False\<rparr>,
        \<lparr>target = api_get ''/drives'' [], authorization = Some ''Bearer new-a'',
         retried = True\<rparr>]
   \<and> snd (on_rejected
       \<lparr>api_reply = (\<lambda>n c. Status 200), refresh_reply = (\<lambda>n t. Tokens ''new-a'' ''new-r'')\<rparr>
       \<lparr>storage = [''accessToken'' \<mapsto> ''old-a'', ''refreshToken'' \<mapsto> ''old-r''],
        location = ''/drives'',
        sent = [\<lparr>target = api_get ''/drives'' [], authorization = Some ''Bearer old-a'',
                 retried = False\<rparr>],
        refreshes = []\<rparr>
       \<lparr>err_config = \<lparr>target = api_get ''/drives'' [], authorization = Some ''Bearer old-a'',
                       retried = False\<rparr>,
        err_status = Some 401\<rparr>) = Resolved 200
   \<and> location (fst (on_rejected
       \<lparr>api_reply = (\<lambda>n c. Status 200), refresh_reply = (\<lambda>n t. RefreshFailed)\<rparr>
       \<lparr>storage = [''accessToken'' \<mapsto> ''old-a'', ''refreshToken'' \<mapsto> ''old-r''],
        location = ''/drives'',
        sent = [\<lparr>target = api_get ''/drives'' [], authorization = Some ''Bearer old-a'',
                 retried = False\<rparr>],
        refreshes = []\<rparr>
       \<lparr>err_config = \<lparr>target = api_get ''/drives'' [], authorization = Some ''Bearer old-a'',
                       retried = False\<rparr>,
        err_status = Some 401\<rparr>)) = ''/login''
   \<and> snd (on_rejected
       \<lparr>api_reply = (\<lambda>n c. Status 200), refresh_reply = (\<lambda>n t. Tokens ''new-a'' ''new-r'')\<rparr>
       \<lparr>storage = Map.empty, location = ''/drives'',
        sent = [\<lparr>target = api_get ''/drives'' [], authorization = None, retried = False\<rparr>],
        refreshes = []\<rparr>
       \<lparr>err_config = \<lparr>target = api_get ''/drives'' [], authorization = None,
                       retried = False\<rparr>,
        err_status = Some 401\<rparr>)
     = Rejected \<lparr>err_config = \<lparr>target = api_get ''/drives'' [], authorization = None,
                                retried = True\<rparr>,
                 err_status = Some 401\<rparr>
   \<and> snd (on_rejected
       \<lparr>api_reply = (\<lambda>n c. Status 200), refresh_reply = (\<lambda>n t. Tokens ''new-a'' ''new-r'')\<rparr>
       \<lparr>storage = [''accessToken'' \<mapsto> ''old-a'', ''refreshToken'' \<mapsto> ''old-r''],
        location = ''/drives'', sent = [], refreshes = []\<rparr>
       \<lparr>err_config = \<lparr>target = api_get ''/drives'' [], authorization = Some ''Bearer old-a'',
                       retried = True\<rparr>,
        err_status = Some 401\<rparr>)
     = Rejected \<lparr>err_config = \<lparr>target = api_get ''/drives'' [],
                                authorization = Some ''Bearer old-a'', retried = True\<rparr>,
                 err_status = Some 401\<rparr>"
proof -
  let ?cfg = "\<lparr>target = api_get ''/drives'' [], authorization = Some ''Bearer old-a'',
                 retried = False\<rparr>"
  let ?err = "\<lparr>err_config = ?cfg, err_status = Some 401\<rparr>"
  let ?w = "\<lparr>storage = [''accessToken'' \<mapsto> ''old-a'', ''refreshToken'' \<mapsto> ''old-r''],
        location = ''/drives'', sent = [?cfg], refreshes = []\<rparr>"
  let ?ok = "\<lparr>api_reply = (\<lambda>n c. Status 200),
        refresh_reply = (\<lambda>n t. Tokens ''new-a'' ''new-r'')\<rparr>"
  let ?ko = "\<lparr>api_reply = (\<lambda>n c. Status 200), refresh_reply = (\<lambda>n t. RefreshFailed)\<rparr>"
  let ?plain = "\<lparr>target = api_get ''/drives'' [], authorization = None, retried = False\<rparr>"
  let ?empty = "\<lparr>storage = Map.empty, location = ''/drives'', sent = [?plain], refreshes = []\<rparr>"
  let ?marked = "\<lparr>target = api_get ''/drives'' [], authorization = Some ''Bearer old-a'',
                 retried = True\<rparr>"
  let ?idle = "\<lparr>storage = [''accessToken'' \<mapsto> ''old-a'', ''refreshToken'' \<mapsto> ''old-r''],
        location = ''/drives'', sent = [], refreshes = []\<rparr>"
  have st: "stored ?w ''refreshToken'' = Some ''old-r''" "stored ?empty ''refreshToken'' = None"
    by (simp_all add: stored_def)
  from refresh_replays_at_most_once [of ?err ?w "''old-r''" ?ok "''new-a''" "''new-r''"] st(1)
  have a: "sent (fst (on_rejected ?ok ?w ?err))
        = [?cfg, \<lparr>target = api_get ''/drives'' [], authorization = Some ''Bearer new-a'',
                   retried = True\<rparr>]"
    and b: "snd (on_rejected ?ok ?w ?err) = Resolved 200"
    by (simp_all del: on_rejected.simps)
  from refresh_replays_at_most_once [of ?err ?w "''old-r''" ?ko "''new-a''" "''new-r''"] st(1)
  have c: "location (fst (on_rejected ?ko ?w ?err)) = ''/login''"
    by (simp del: on_rejected.simps)
  from refresh_replays_at_most_once [of "\<lparr>err_config = ?plain, err_status = Some 401\<rparr>" ?empty
      "''old-r''" ?ok "''new-a''" "''new-r''"] st(2)
  have d: "snd (on_rejected ?ok ?empty \<lparr>err_config = ?plain, err_status = Some 401\<rparr>)
        = Rejected \<lparr>err_config = \<lparr>target = api_get ''/drives'' [], authorization = None,
                                   retried = True\<rparr>,
                    err_status = Some 401\<rparr>"
    by (simp del: on_rejected.simps)
  from refresh_replays_at_most_once [of "\<lparr>err_config = ?marked, err_status = Some 401\<rparr>" ?idle
      "''old-r''" ?ok "''new-a''" "''new-r''"]
  have e: "snd (on_rejected ?ok ?idle \<lparr>err_config = ?marked, err_status = Some 401\<rparr>)
        = Rejected \<lparr>err_config = ?marked, err_status = Some 401\<rparr>"
    by (simp del: on_rejected.simps)
  from a b c d e show ?thesis by blast
qed

section \<open>Idempotent ingestion\<close>







end
